theory Spec2Isabelle
  imports Main
begin

section \<open>Data model of the computer player (DefaultAI)\<close>

text \<open>
  The embedding follows \<^verbatim>\<open>ai/defaultai.cc\<close>. The class declaration and the helper
  structs (\<^verbatim>\<open>defaultai.h\<close>, \<^verbatim>\<open>ai_help_structs.h\<close>) and the host classes (map, player,
  economy, flag, road) are not among the sources; the fields below are the ones the
  member functions read and write, with the names used there. Integer fields whose width
  is declared in those headers are unbounded (\<open>int\<close>, \<open>nat\<close>). Pointers to host objects
  are handles (\<open>nat\<close>); a pointer to a building observer is its index in \<open>buildings\<close>.
  The trailing underscore of a member name is dropped (\<^verbatim>\<open>cnt_built_\<close> is \<open>cnt_built\<close>).
\<close>

type_synonym Coords = "int \<times> int"

datatype error = OutOfRange | UnknownBuilding string | BadCast | BackOfEmpty

subsection \<open>Host objects as the engine sees them\<close>

text \<open>The descriptor of a building type, with the queries the engine makes on it.\<close>

datatype DescrClass =
  ProductionSiteDescr | MilitarySiteDescr | WarehouseDescr | TrainingSiteDescr
  | ConstructionSiteDescr | OtherDescr

record BuildingDescr =
  descr_name :: string
  descr_class :: DescrClass
  get_ismine :: bool
  get_size :: int
  get_conquers :: int
  get_max_number_of_soldiers :: int
  enhancement :: "nat option"

text \<open>
  An immovable on the map, by its dynamic class. A construction site carries the
  descriptor of the building under construction (\<^verbatim>\<open>ConstructionSite::building()\<close>); a
  military site its soldier capacity and the number of stationed soldiers.
\<close>

datatype ImmovableClass =
  Flag
  | Road
  | ConstructionSite BuildingDescr
  | ProductionSite
  | MilitarySite (max_soldier_capacity: int) (stationed_soldiers: nat)
  | Warehouse
  | TrainingSite
  | OtherBuilding
  | MapImmovable

record BaseImmovable =
  handle :: nat
  imm_class :: ImmovableClass
  owner :: "nat option"
  descr :: BuildingDescr
  attributes :: "string list"

record ImmovableFound =
  object :: BaseImmovable
  coords :: Coords

definition is_Building :: "BaseImmovable \<Rightarrow> bool" where
  "is_Building b = (case imm_class b of
      ConstructionSite _ \<Rightarrow> True | ProductionSite \<Rightarrow> True | MilitarySite _ _ \<Rightarrow> True
    | Warehouse \<Rightarrow> True | TrainingSite \<Rightarrow> True | OtherBuilding \<Rightarrow> True
    | _ \<Rightarrow> False)"

definition has_attribute :: "BaseImmovable \<Rightarrow> string \<Rightarrow> bool" where
  "has_attribute b a = (a \<in> set (attributes b))"

subsection \<open>Observers and field records\<close>

datatype ObserverType =
  BORING | CONSTRUCTIONSITE | PRODUCTIONSITE | MILITARYSITE | WAREHOUSE | TRAININGSITE | MINE

record BuildingObserver =
  name :: string
  bo_id :: nat
  desc :: BuildingDescr
  bo_type :: ObserverType
  is_buildable :: bool
  need_trees :: bool
  need_stones :: bool
  need_water :: bool
  mines_water :: bool
  recruitment :: bool
  space_consumer :: bool
  expansion_type :: bool
  fighting_type :: bool
  mountain_conqueror :: bool
  plants_trees :: bool
  is_hunter :: bool
  is_fisher :: bool
  prohibited_till :: int
  forced_after :: int
  production_hint :: int
  bo_mines :: int
  cnt_built :: int
  cnt_under_construction :: int
  cnt_target :: int
  unoccupied :: bool
  current_stats :: int
  stocklevel :: int
  stocklevel_time :: int
  construction_decision_time :: int
  inputs :: "nat list"
  outputs :: "nat list"

text \<open>\<^verbatim>\<open>BuildingObserver::total_count()\<close> is declared in the header: built plus under
  construction.\<close>

definition total_count :: "BuildingObserver \<Rightarrow> int" where
  "total_count bo = cnt_built bo + cnt_under_construction bo"

record WareObserver =
  producers :: int
  consumers :: int
  preciousness :: int

record ProductionSiteObserver =
  ps_site :: nat
  ps_bo :: nat
  built_time :: int
  unoccupied_till :: int
  stats_zero :: int
  no_resources_count :: int

record MilitarySiteObserver =
  ms_site :: nat
  ms_bo :: nat
  checks :: int
  enemies_nearby :: bool

record EconomyObserver =
  economy :: nat
  flags :: "nat list"
  failed_connection_tries :: nat

record BlockedField =
  bl_coords :: Coords
  blocked_until :: int

record BuildableField =
  bf_coords :: Coords
  bf_next_update_due :: int
  bf_preferred :: bool
  enemy_nearby :: bool
  unowned_land_nearby :: int
  near_border :: bool
  unowned_mines_pots_nearby :: int
  trees_nearby :: int
  stones_nearby :: int
  water_nearby :: int
  distant_water :: int
  fish_nearby :: int
  critters_nearby :: int
  ground_water :: int
  space_consumers_nearby :: int
  producers_nearby :: "int list"
  consumers_nearby :: "int list"
  military_capacity :: int
  military_loneliness :: int
  military_in_constr_nearby :: int
  military_presence :: int
  military_stationed :: int

record MineableField =
  mf_coords :: Coords
  mf_next_update_due :: int
  mf_preferred :: bool
  mines_nearby :: int

subsection \<open>Commands sent to the game\<close>

datatype Command =
  send_player_build nat Coords nat
  | send_player_build_flag nat Coords
  | send_player_bulldoze nat

subsection \<open>The game as the engine queries it\<close>

text \<open>
  Modelled from the spec: the build-capability classes of a tile, \<^verbatim>\<open>BUILDCAPS_SMALL\<close>,
  \<^verbatim>\<open>BUILDCAPS_MEDIUM\<close> and \<^verbatim>\<open>BUILDCAPS_BIG\<close>, declared with the map. They are the three
  non-zero values of \<^verbatim>\<open>nodecaps() & BUILDCAPS_SIZEMASK\<close>, which indexes a vector of four
  counters in \<^verbatim>\<open>construct_building\<close>.
\<close>

definition BUILDCAPS_SMALL :: nat where "BUILDCAPS_SMALL = 1"
definition BUILDCAPS_MEDIUM :: nat where "BUILDCAPS_MEDIUM = 2"
definition BUILDCAPS_BIG :: nat where "BUILDCAPS_BIG = 3"

text \<open>
  The queries on map, player and economies are fields of one record, so that a model
  function takes the game it runs against as an argument. \<open>nodecaps_size c\<close> is
  \<^verbatim>\<open>nodecaps() & BUILDCAPS_SIZEMASK\<close> of the node at \<open>c\<close>, \<open>nodecaps_flag c\<close> is
  \<^verbatim>\<open>nodecaps() & BUILDCAPS_FLAG\<close> as a truth value; \<open>get_buildcaps_size\<close> and
  \<open>get_buildcaps_mine\<close> are the same for \<^verbatim>\<open>player_->get_buildcaps(c)\<close>.
  \<open>region c r\<close> lists the nodes a \<^verbatim>\<open>MapRegion\<close> over the area of radius \<open>r\<close> around \<open>c\<close>
  visits. The economy queries take the economy's handle and the ware index as the
  integer the source converts to a \<^verbatim>\<open>WareIndex\<close>.

  \<open>find_unowned c r\<close> and \<open>find_unowned_mines_pots c r\<close> are the counts \<^verbatim>\<open>find_fields\<close> returns
  for the area of radius \<open>r\<close> around \<open>c\<close> with the functors of these names, \<open>find_water\<close> and
  \<open>find_fish\<close> the lists it appends with \<^verbatim>\<open>FindNodeWater\<close> and with \<^verbatim>\<open>FindNodeResource\<close> of
  fish, \<open>find_critters\<close> the number of bobs \<^verbatim>\<open>find_bobs\<close> appends with \<^verbatim>\<open>FindBobCritter\<close>.
  \<open>get_path r\<close> is the list of coordinates of the \<^verbatim>\<open>CoordPath\<close> of the road with handle \<open>r\<close>:
  one more than its steps. \<open>flag_economy f\<close> is the handle of the economy of the flag \<open>f\<close>,
  \<open>flag_building f\<close> the position of the building at the flag, if there is one.
  \<open>player_exists p\<close> says whether \<^verbatim>\<open>iterate_players_existing\<close> visits player \<open>p\<close>.
  \<open>get_general_statistics\<close> holds, per entry of the statistics vector, the series
  \<^verbatim>\<open>miltary_strength\<close> of unsigned 32-bit samples.
\<close>

record Game =
  get_gametime :: int
  player_number :: nat
  is_hostile :: "nat \<Rightarrow> bool"
  is_building_type_allowed :: "nat \<Rightarrow> bool"
  get_owned_by :: "Coords \<Rightarrow> nat"
  nodecaps_size :: "Coords \<Rightarrow> nat"
  nodecaps_flag :: "Coords \<Rightarrow> bool"
  get_buildcaps_size :: "Coords \<Rightarrow> nat"
  get_buildcaps_mine :: "Coords \<Rightarrow> bool"
  get_immovable :: "Coords \<Rightarrow> BaseImmovable option"
  get_resources :: "Coords \<Rightarrow> int"
  get_resources_amount :: "Coords \<Rightarrow> int"
  get_brn :: "Coords \<Rightarrow> Coords"
  calc_distance :: "Coords \<Rightarrow> Coords \<Rightarrow> nat"
  find_immovables :: "Coords \<Rightarrow> nat \<Rightarrow> ImmovableFound list"
  region :: "Coords \<Rightarrow> nat \<Rightarrow> Coords list"
  warehouses_empty :: "nat \<Rightarrow> bool"
  stock_ware :: "nat \<Rightarrow> int \<Rightarrow> nat"
  needs_ware :: "nat \<Rightarrow> int \<Rightarrow> bool"
  get_neighbour_se :: "Coords \<Rightarrow> Coords"
  find_unowned :: "Coords \<Rightarrow> nat \<Rightarrow> nat"
  find_unowned_mines_pots :: "Coords \<Rightarrow> nat \<Rightarrow> nat"
  find_water :: "Coords \<Rightarrow> nat \<Rightarrow> Coords list"
  find_fish :: "Coords \<Rightarrow> nat \<Rightarrow> Coords list"
  find_critters :: "Coords \<Rightarrow> nat \<Rightarrow> nat"
  get_path :: "nat \<Rightarrow> Coords list"
  flag_economy :: "nat \<Rightarrow> nat"
  flag_building :: "nat \<Rightarrow> Coords option"
  get_nrplayers :: nat
  player_exists :: "nat \<Rightarrow> bool"
  get_general_statistics :: "nat list list"

section \<open>Field index: \<^verbatim>\<open>update_mineable_field\<close>\<close>

text \<open>
  One pass over the immovables within radius 5. The counter starts at 1; a building whose
  descriptor is a mine counts, and otherwise a construction site whose target is a mine.
\<close>

definition is_flag_or_flaggable_road :: "Game \<Rightarrow> Coords \<Rightarrow> bool" where
  "is_flag_or_flaggable_road g fse =
     (case get_immovable g fse of
        None \<Rightarrow> False
      | Some imm \<Rightarrow> imm_class imm = Flag \<or> (imm_class imm = Road \<and> nodecaps_flag g fse))"

definition counts_as_mine :: "BaseImmovable \<Rightarrow> bool" where
  "counts_as_mine bld =
     (is_Building bld \<and>
       (if get_ismine (descr bld) then True
        else (case imm_class bld of
                ConstructionSite target \<Rightarrow> get_ismine target
              | _ \<Rightarrow> False)))"

fun count_mines_nearby :: "ImmovableFound list \<Rightarrow> int \<Rightarrow> int" where
  "count_mines_nearby [] n = n"
| "count_mines_nearby (temp_immovable # rest) n =
     count_mines_nearby rest (if counts_as_mine (object temp_immovable) then n + 1 else n)"

definition update_mineable_field :: "Game \<Rightarrow> MineableField \<Rightarrow> MineableField" where
  "update_mineable_field g field =
     (let immovables = find_immovables g (mf_coords field) 5;
          field = field\<lparr>mf_preferred := False, mines_nearby := 1\<rparr>;
          fse = get_brn g (mf_coords field);
          field = (if is_flag_or_flaggable_road g fse
                   then field\<lparr>mf_preferred := True\<rparr> else field)
      in field\<lparr>mines_nearby := count_mines_nearby immovables (mines_nearby field)\<rparr>)"

section \<open>The engine's state\<close>

text \<open>
  The members of \<^verbatim>\<open>DefaultAI\<close> that the functions below use. \<open>tribe_is_null\<close> says that
  \<^verbatim>\<open>tribe_\<close> is still the null pointer. \<open>sent\<close> is the game's command queue as far as this
  player filled it, oldest command first.
\<close>

record DefaultAI =
  ai_type :: nat
  tribe_is_null :: bool
  buildable_fields :: "BuildableField list"
  mineable_fields :: "MineableField list"
  unusable_fields :: "Coords list"
  buildings :: "BuildingObserver list"
  wares :: "WareObserver list"
  productionsites :: "ProductionSiteObserver list"
  mines :: "ProductionSiteObserver list"
  militarysites :: "MilitarySiteObserver list"
  roads :: "nat list"
  new_flags :: "nat list"
  economies :: "EconomyObserver list"
  blocked_fields :: "BlockedField list"
  num_constructionsites :: int
  num_milit_constructionsites :: int
  num_prod_constructionsites :: int
  numof_warehouses :: nat
  next_road_due :: int
  next_stats_update_due :: int
  next_construction_due :: int
  next_mine_construction_due :: int
  next_attack_consideration_due :: int
  next_bf_check_due :: int
  time_of_last_construction :: int
  inhibit_road_building :: int
  enemy_last_seen :: int
  new_buildings_stop :: bool
  resource_necessity_territory :: int
  resource_necessity_mines :: int
  resource_necessity_water :: int
  resource_necessity_water_needed :: bool
  unstationed_milit_buildings :: int
  military_last_build :: int
  spots :: int
  m_buildable_changed :: bool
  m_mineable_changed :: bool
  sent :: "Command list"

text \<open>Division and remainder of C++ on signed integers truncate towards zero.\<close>

definition c_div :: "int \<Rightarrow> int \<Rightarrow> int" where
  "c_div a b = (if (a < 0) = (b < 0) then \<bar>a\<bar> div \<bar>b\<bar> else - (\<bar>a\<bar> div \<bar>b\<bar>))"

definition c_mod :: "int \<Rightarrow> int \<Rightarrow> int" where
  "c_mod a b = a - b * c_div a b"

section \<open>Construction planner: \<^verbatim>\<open>construct_building\<close>\<close>

subsection \<open>Strategic regime\<close>

text \<open>The free spots by size class: one counter per value of the size mask.\<close>

fun count_spots_avail :: "Game \<Rightarrow> BuildableField list \<Rightarrow> int list \<Rightarrow> int list" where
  "count_spots_avail g [] spots_avail = spots_avail"
| "count_spots_avail g (bf # rest) spots_avail =
     count_spots_avail g rest
       (spots_avail[nodecaps_size g (bf_coords bf) :=
          spots_avail ! nodecaps_size g (bf_coords bf) + 1])"

definition set_spots :: "Game \<Rightarrow> DefaultAI \<Rightarrow> int list \<times> DefaultAI" where
  "set_spots g s =
     (let spots_avail = count_spots_avail g (buildable_fields s) [0, 0, 0, 0];
          s = s\<lparr>spots := spots_avail ! BUILDCAPS_SMALL\<rparr>;
          s = s\<lparr>spots := spots s + spots_avail ! BUILDCAPS_MEDIUM\<rparr>;
          s = s\<lparr>spots := spots s + spots_avail ! BUILDCAPS_BIG\<rparr>
      in (spots_avail, s))"

text \<open>
  The four reasons to stop building production sites, each setting the flag, and the
  cancellation when an enemy was seen less than two minutes ago. Only the flag is written
  in this stretch of the function, so its successive values are a local variable here.
\<close>

definition stop_new_buildings :: "DefaultAI \<Rightarrow> int \<Rightarrow> bool" where
  "stop_new_buildings s gametime =
     (let stop = False;
          stop = (if num_prod_constructionsites s > int (length (productionsites s) div 7 + 2)
                  then True else stop);
          stop = (if c_div (spots s * 3) 2 + 5 < int (length (productionsites s))
                  then True else stop);
          stop = (if num_prod_constructionsites s + int (length (productionsites s)) >
                     (num_milit_constructionsites s + int (length (militarysites s))) * 3
                  then True else stop);
          stop = (if length (mines s) < 3 then True else stop);
          stop = (if stop \<and> enemy_last_seen s + 2 * 60 * 1000 > gametime
                  then False else stop)
      in stop)"

definition set_new_buildings_stop :: "DefaultAI \<Rightarrow> int \<Rightarrow> DefaultAI" where
  "set_new_buildings_stop s gametime =
     s\<lparr>new_buildings_stop := stop_new_buildings s gametime\<rparr>"

definition kPushExpansion :: nat where "kPushExpansion = 1"
definition kResourcesOrDefense :: nat where "kResourcesOrDefense = 2"
definition kDefenseOnly :: nat where "kDefenseOnly = 3"
definition kNoNewMilitary :: nat where "kNoNewMilitary = 4"

definition kIdleMineUpdateInterval :: int where "kIdleMineUpdateInterval = 22000"
definition kBusyMineUpdateInterval :: int where "kBusyMineUpdateInterval = 2000"
definition kFieldUpdateInterval :: int where "kFieldUpdateInterval = 2000"
definition kBuildingMinInterval :: int where "kBuildingMinInterval = 25 * 1000"
definition kDefaultPrioBoost :: int where "kDefaultPrioBoost = 12"

definition get_expansion_mode :: "DefaultAI \<Rightarrow> nat" where
  "get_expansion_mode s =
     (let treshold = int (length (militarysites s) div 40 + 2) in
      if unstationed_milit_buildings s + num_milit_constructionsites s > 3 * treshold
        then kNoNewMilitary
      else if unstationed_milit_buildings s + num_milit_constructionsites s > 2 * treshold
        then kDefenseOnly
      else if unstationed_milit_buildings s + num_milit_constructionsites s \<ge> 1
        then kResourcesOrDefense
      else kPushExpansion)"

text \<open>
  The need for mines, from the virtual mines (mines plus a tenth of the mineable fields),
  and the need for territory, from the big spots while the economy is built up and from
  the production sites per free spot afterwards.
\<close>

definition necessity_mines :: "int \<Rightarrow> int" where
  "necessity_mines virtual_mines =
     (if virtual_mines \<le> 5 then 255
      else if virtual_mines > 14 then 0
      else ((16 - virtual_mines) * 255) div 12)"

definition necessity_territory :: "int \<Rightarrow> int list \<Rightarrow> int \<Rightarrow> nat \<Rightarrow> int" where
  "necessity_territory virtual_mines spots_avail free nsites =
     (if virtual_mines \<le> 5 then
        (if spots_avail ! BUILDCAPS_BIG \<le> 4 then 255 else 0)
      else
        (if free = 0 then 255
         else
           (let tmp = (255 * 4 * int nsites) div free in
            if tmp > 255 then 255 else tmp)))"

definition set_resource_necessity :: "int list \<Rightarrow> DefaultAI \<Rightarrow> DefaultAI" where
  "set_resource_necessity spots_avail s =
     (let virtual_mines = int (length (mines s) + length (mineable_fields s) div 10)
      in s\<lparr>resource_necessity_mines := necessity_mines virtual_mines,
           resource_necessity_territory :=
             necessity_territory virtual_mines spots_avail (spots s)
               (length (productionsites s))\<rparr>)"

subsection \<open>Blocked fields\<close>

text \<open>
  The erase loop over the blocker list: an entry goes when its expiry is before the
  game time.
\<close>

fun remove_outdated :: "int \<Rightarrow> BlockedField list \<Rightarrow> BlockedField list" where
  "remove_outdated now [] = []"
| "remove_outdated now (i # rest) =
     (if blocked_until i < now then remove_outdated now rest
      else i # remove_outdated now rest)"

text \<open>The test of a buildable field against the list runs to the end of the list.\<close>

fun field_blocked :: "BlockedField list \<Rightarrow> Coords \<Rightarrow> bool \<Rightarrow> bool" where
  "field_blocked [] c blocked = blocked"
| "field_blocked (j # rest) c blocked =
     field_blocked rest c (if bl_coords j = c then True else blocked)"

subsection \<open>Helpers of the candidate scan\<close>

text \<open>\<^verbatim>\<open>std::vector::at\<close> throws \<^verbatim>\<open>std::out_of_range\<close>; the exception leaves the function.\<close>

definition at :: "'a list \<Rightarrow> nat \<Rightarrow> error + 'a" where
  "at xs i = (if i < length xs then Inr (xs ! i) else Inl OutOfRange)"

definition and_then :: "error + 'a \<Rightarrow> ('a \<Rightarrow> error + 'b) \<Rightarrow> error + 'b" where
  "and_then r f = (case r of Inl e \<Rightarrow> Inl e | Inr v \<Rightarrow> f v)"

text \<open>\<^verbatim>\<open>bo.buildable(*player_)\<close>, declared in the header: the type is buildable and the
  player is allowed to build it.\<close>

definition buildable :: "Game \<Rightarrow> BuildingObserver \<Rightarrow> bool" where
  "buildable g bo = (is_buildable bo \<and> is_building_type_allowed g (bo_id bo))"

text \<open>
  \<^verbatim>\<open>get_stocklevel_by_hint\<close> and \<^verbatim>\<open>get_stocklevel\<close>: the sum in a \<^verbatim>\<open>uint32_t\<close>, which wraps,
  and the minimum starting at \<^verbatim>\<open>std::numeric_limits<uint32_t>::max()\<close>, over the economies
  that have a warehouse.
\<close>

fun get_stocklevel_by_hint_loop :: "Game \<Rightarrow> EconomyObserver list \<Rightarrow> int \<Rightarrow> nat \<Rightarrow> nat" where
  "get_stocklevel_by_hint_loop g [] wt count = count"
| "get_stocklevel_by_hint_loop g (observer # rest) wt count =
     (if warehouses_empty g (economy observer) then get_stocklevel_by_hint_loop g rest wt count
      else get_stocklevel_by_hint_loop g rest wt
             ((count + stock_ware g (economy observer) wt) mod 4294967296))"

definition get_stocklevel_by_hint :: "Game \<Rightarrow> DefaultAI \<Rightarrow> int \<Rightarrow> int" where
  "get_stocklevel_by_hint g s hintoutput =
     int (get_stocklevel_by_hint_loop g (economies s) hintoutput 0)"

fun get_stocklevel_outputs :: "Game \<Rightarrow> nat \<Rightarrow> nat list \<Rightarrow> nat \<Rightarrow> nat" where
  "get_stocklevel_outputs g e [] count = count"
| "get_stocklevel_outputs g e (wt # rest) count =
     get_stocklevel_outputs g e rest
       (if count > stock_ware g e (int wt) then stock_ware g e (int wt) else count)"

fun get_stocklevel_loop :: "Game \<Rightarrow> EconomyObserver list \<Rightarrow> nat list \<Rightarrow> nat \<Rightarrow> nat" where
  "get_stocklevel_loop g [] outs count = count"
| "get_stocklevel_loop g (observer # rest) outs count =
     (if warehouses_empty g (economy observer) then get_stocklevel_loop g rest outs count
      else get_stocklevel_loop g rest outs
             (get_stocklevel_outputs g (economy observer) outs count))"

definition get_stocklevel :: "Game \<Rightarrow> DefaultAI \<Rightarrow> BuildingObserver \<Rightarrow> int" where
  "get_stocklevel g s bo =
     int (if outputs bo \<noteq> [] then get_stocklevel_loop g (economies s) (outputs bo) 4294967295
          else 4294967295)"

text \<open>
  \<^verbatim>\<open>check_ware_necessity\<close>: the three results are reset and then raised over the economies
  that have a warehouse and the outputs of the building. Both reads of the ware observer
  are \<^verbatim>\<open>wares.at(...)\<close> of the same index, so one lookup stands for them.
\<close>

fun check_ware_necessity_outputs ::
  "Game \<Rightarrow> WareObserver list \<Rightarrow> nat \<Rightarrow> nat list \<Rightarrow> bool \<times> int \<times> int
     \<Rightarrow> error + (bool \<times> int \<times> int)" where
  "check_ware_necessity_outputs g ws e [] r = Inr r"
| "check_ware_necessity_outputs g ws e (wt # rest)
       (output_is_needed, max_preciousness, max_needed_preciousness) =
     and_then (at ws wt) (\<lambda>w.
       check_ware_necessity_outputs g ws e rest
         (if needs_ware g e (int wt) then True else output_is_needed,
          if preciousness w > max_preciousness then preciousness w else max_preciousness,
          if needs_ware g e (int wt) \<and> preciousness w > max_needed_preciousness
          then preciousness w else max_needed_preciousness))"

fun check_ware_necessity_loop ::
  "Game \<Rightarrow> WareObserver list \<Rightarrow> EconomyObserver list \<Rightarrow> nat list
     \<Rightarrow> bool \<times> int \<times> int \<Rightarrow> error + (bool \<times> int \<times> int)" where
  "check_ware_necessity_loop g ws [] outs r = Inr r"
| "check_ware_necessity_loop g ws (observer # rest) outs r =
     (if warehouses_empty g (economy observer) then check_ware_necessity_loop g ws rest outs r
      else and_then (check_ware_necessity_outputs g ws (economy observer) outs r)
             (check_ware_necessity_loop g ws rest outs))"

definition check_ware_necessity ::
  "Game \<Rightarrow> DefaultAI \<Rightarrow> BuildingObserver \<Rightarrow> error + (bool \<times> int \<times> int)" where
  "check_ware_necessity g s bo =
     check_ware_necessity_loop g (wares s) (economies s) (outputs bo) (False, 0, 0)"

text \<open>\<^verbatim>\<open>recalc_with_border_range\<close>.\<close>

definition recalc_with_border_range :: "DefaultAI \<Rightarrow> BuildableField \<Rightarrow> int \<Rightarrow> int" where
  "recalc_with_border_range s bf prio =
     (let prio = (if unowned_land_nearby bf > 15 then prio - (unowned_land_nearby bf - 15)
                  else prio)
      in if enemy_nearby bf \<and> prio > 0 then c_div prio (3 + int (ai_type s)) else prio)"

text \<open>
  The outcome of scoring one building on one field: the observer as the scoring left it
  and either \<open>None\<close>, for \<^verbatim>\<open>continue\<close>, or the priority reached.
\<close>

type_synonym candidate = "error + (BuildingObserver \<times> int option)"

definition skip :: "BuildingObserver \<Rightarrow> candidate" where
  "skip bo = Inr (bo, None)"

definition score :: "BuildingObserver \<Rightarrow> int \<Rightarrow> candidate" where
  "score bo prio = Inr (bo, Some prio)"

definition producers_nearby_at_output0 :: "BuildableField \<Rightarrow> BuildingObserver \<Rightarrow> error + int" where
  "producers_nearby_at_output0 bf bo =
     and_then (at (outputs bo) 0) (at (producers_nearby bf))"

definition producers_nearby_at_hint :: "BuildableField \<Rightarrow> BuildingObserver \<Rightarrow> error + int" where
  "producers_nearby_at_hint bf bo = at (producers_nearby bf) (nat (production_hint bo))"

definition refresh_stocklevel_by_hint :: "Game \<Rightarrow> DefaultAI \<Rightarrow> BuildingObserver \<Rightarrow> BuildingObserver" where
  "refresh_stocklevel_by_hint g s bo =
     (if stocklevel_time bo < get_gametime g - 5 * 1000
      then bo\<lparr>stocklevel := get_stocklevel_by_hint g s (production_hint bo),
               stocklevel_time := get_gametime g\<rparr>
      else bo)"

subsection \<open>Scoring production sites\<close>

text \<open>Wells.\<close>

definition prio_well :: "Game \<Rightarrow> DefaultAI \<Rightarrow> BuildableField \<Rightarrow> BuildingObserver \<Rightarrow> candidate" where
  "prio_well g s bf bo =
     (let rest = (\<lambda>prio.
            let bo = bo\<lparr>cnt_target := 1 + int (length (productionsites s) div 50)\<rparr>;
                bo = (if stocklevel_time bo < get_gametime g - 30 * 1000
                      then bo\<lparr>stocklevel := get_stocklevel g s bo,
                               stocklevel_time := get_gametime g\<rparr>
                      else bo)
            in if stocklevel bo > 40 then skip bo
               else score bo (recalc_with_border_range s bf (prio + (ground_water bf - 2))))
      in if ground_water bf < 2 then skip bo
         else if cnt_under_construction bo + of_bool (unoccupied bo) > 0 then skip bo
         else if total_count bo = 0 then rest 200
         else if new_buildings_stop s then skip bo
         else rest 0)"

text \<open>Lumberjacks.\<close>

definition prio_lumberjack :: "DefaultAI \<Rightarrow> BuildableField \<Rightarrow> BuildingObserver \<Rightarrow> candidate" where
  "prio_lumberjack s bf bo =
     (let bo = bo\<lparr>cnt_target :=
                   3 + c_div (int (length (mines s) + length (productionsites s))) 15\<rparr>
      in if total_count bo = 0 then score bo (500 + trees_nearby bf)
         else if total_count bo = 1 then score bo (400 + trees_nearby bf)
         else if trees_nearby bf < 2 then skip bo
         else
           (let prio = (if total_count bo < cnt_target bo then 75 else 0) in
            and_then (producers_nearby_at_output0 bf bo) (\<lambda>pn.
              if pn > 1 then skip bo
              else
                (let prio = prio + (2 * trees_nearby bf - 10 - pn * 5
                                    - of_bool (new_buildings_stop s) * 15)
                 in score bo (if near_border bf then c_div prio 2 else prio)))))"

text \<open>Quarries.\<close>

definition prio_quarry :: "Game \<Rightarrow> DefaultAI \<Rightarrow> BuildableField \<Rightarrow> BuildingObserver \<Rightarrow> candidate" where
  "prio_quarry g s bf bo =
     (if cnt_under_construction bo > 0 then skip bo
      else
        (let prio = stones_nearby bf in
         if prio \<le> 0 then skip bo
         else
           (let prio = (if total_count bo = 0 then prio + 150 else prio);
                bo = refresh_stocklevel_by_hint g s bo;
                prio = (if stocklevel bo = 0 then prio * 2 else prio)
            in and_then (producers_nearby_at_output0 bf bo) (\<lambda>pn.
                 (let prio = prio - 50 * pn
                  in score bo (if near_border bf then c_div prio 2 else prio))))))"

text \<open>Hunters.\<close>

definition prio_hunter :: "DefaultAI \<Rightarrow> BuildableField \<Rightarrow> BuildingObserver \<Rightarrow> candidate" where
  "prio_hunter s bf bo =
     (if critters_nearby bf < 5 then skip bo
      else if new_buildings_stop s then skip bo
      else and_then (producers_nearby_at_output0 bf bo) (\<lambda>pn.
             score bo ((critters_nearby bf * 2) - 8 - 5 * pn)))"

text \<open>Fishers.\<close>

definition prio_fisher ::
  "Game \<Rightarrow> DefaultAI \<Rightarrow> int \<Rightarrow> BuildableField \<Rightarrow> BuildingObserver \<Rightarrow> candidate" where
  "prio_fisher g s max_needed_preciousness bf bo =
     (if max_needed_preciousness = 0 then skip bo
      else if cnt_under_construction bo + of_bool (unoccupied bo) > 0 then skip bo
      else if water_nearby bf < 2 then skip bo
      else if max_needed_preciousness < 4 \<and> new_buildings_stop s then skip bo
      else
        (let bo = refresh_stocklevel_by_hint g s bo in
         if stocklevel bo > 50 then skip bo
         else and_then (producers_nearby_at_output0 bf bo) (\<lambda>pn.
                if pn \<ge> 1 then skip bo
                else score bo (fish_nearby bf
                               - of_bool (new_buildings_stop s) * 15 * total_count bo))))"

text \<open>Supporting sites: rangers, and fish breeders and game keepers.\<close>

definition prio_ranger :: "Game \<Rightarrow> DefaultAI \<Rightarrow> BuildableField \<Rightarrow> BuildingObserver \<Rightarrow> candidate" where
  "prio_ranger g s bf bo =
     (if trees_nearby bf > 25 \<and> total_count bo \<ge> 1 then skip bo
      else if length (buildable_fields s) < 4 then skip bo
      else
        (let bo = refresh_stocklevel_by_hint g s bo;
             prio = (if total_count bo = 0 then 200 else 0)
         in if total_count bo > 2 * cnt_target bo then skip bo
            else if total_count bo \<ge> cnt_target bo \<and> stocklevel bo > 40 then skip bo
            else and_then (producers_nearby_at_hint bf bo) (\<lambda>pn.
                   (let prio = prio + ((30 - trees_nearby bf) * 2 + pn * 5
                                       - of_bool (new_buildings_stop s) * 15);
                        prio = prio - space_consumers_nearby bf * 5
                    in score bo prio))))"

definition prio_breeder ::
  "Game \<Rightarrow> DefaultAI \<Rightarrow> int \<Rightarrow> BuildableField \<Rightarrow> BuildingObserver \<Rightarrow> candidate" where
  "prio_breeder g s gametime bf bo =
     (if new_buildings_stop s \<and> total_count bo > 0 then skip bo
      else if need_water bo \<and> water_nearby bf < 2 then skip bo
      else
        (let prio = (if need_water bo then c_div (water_nearby bf) 5 else 0) in
         if total_count bo > cnt_target bo then skip bo
         else
           (let bo = refresh_stocklevel_by_hint g s bo in
            if stocklevel bo > 50 then skip bo
            else
              (let fin = (\<lambda>prio. score bo (if enemy_nearby bf then prio - 10 else prio)) in
               and_then (producers_nearby_at_hint bf bo) (\<lambda>pn.
                 if total_count bo = 0 \<and> gametime > 45 * 1000 then fin (prio + (100 + pn * 10))
                 else if pn = 0 then skip bo
                 else fin (prio + pn * 10))))))"

definition prio_supporting ::
  "Game \<Rightarrow> DefaultAI \<Rightarrow> int \<Rightarrow> BuildableField \<Rightarrow> BuildingObserver \<Rightarrow> candidate" where
  "prio_supporting g s gametime bf bo =
     (let bo = (if plants_trees bo
                then bo\<lparr>cnt_target :=
                          2 + c_div (int (length (mines s) + length (productionsites s))) 15\<rparr>
                else bo\<lparr>cnt_target :=
                          1 + c_div (int (length (mines s) + length (productionsites s))) 20\<rparr>)
      in if (cnt_under_construction bo + of_bool (unoccupied bo)) > 1 then skip bo
         else if plants_trees bo then prio_ranger g s bf bo
         else prio_breeder g s gametime bf bo)"

text \<open>Recruitment sites and, last, the normal production sites.\<close>

definition prio_recruitment :: "DefaultAI \<Rightarrow> BuildingObserver \<Rightarrow> candidate" where
  "prio_recruitment s bo =
     (if int ((length (productionsites s) + length (mines s)) div 30) > total_count bo
         \<and> cnt_under_construction bo = 0
      then score bo (4 + kDefaultPrioBoost) else score bo 0)"

text \<open>The consumers near the field, summed over the outputs in a \<^verbatim>\<open>uint32_t\<close>.\<close>

fun consumers_nearby_count :: "BuildableField \<Rightarrow> nat list \<Rightarrow> int \<Rightarrow> error + int" where
  "consumers_nearby_count bf [] n = Inr n"
| "consumers_nearby_count bf (k # rest) n =
     and_then (at (consumers_nearby bf) k)
       (\<lambda>c. consumers_nearby_count bf rest ((n + c) mod 4294967296))"

definition prio_normal_no_inputs ::
  "int \<Rightarrow> BuildableField \<Rightarrow> BuildingObserver \<Rightarrow> int \<Rightarrow> error + int" where
  "prio_normal_no_inputs max_needed_preciousness bf bo prio =
     (let prio = prio + (max_needed_preciousness + kDefaultPrioBoost);
          prio = (if space_consumer bo then prio + (20 - c_div (trees_nearby bf) 3) else prio);
          prio = (if space_consumer bo then prio + space_consumers_nearby bf * 2 else prio);
          prio = (if space_consumer bo \<and> water_nearby bf = 0 then prio + 1 else prio);
          prio = (if space_consumer bo \<and> unowned_mines_pots_nearby bf = 0 then prio + 1
                  else prio)
      in and_then
           (if \<not> space_consumer bo
            then and_then (producers_nearby_at_output0 bf bo) (\<lambda>pn. Inr (prio - pn * 20))
            else Inr prio)
           (\<lambda>prio. Inr (prio - space_consumers_nearby bf * 3)))"

definition prio_normal_inputs :: "int \<Rightarrow> BuildingObserver \<Rightarrow> int \<Rightarrow> int" where
  "prio_normal_inputs max_needed_preciousness bo prio =
     (let prio = (if total_count bo = 0 then prio + (max_needed_preciousness + kDefaultPrioBoost)
                  else prio)
      in if cnt_built bo > 0 \<and> current_stats bo > 70
         then prio + (max_needed_preciousness + kDefaultPrioBoost - 3
                      + c_div (current_stats bo - 70) 5)
         else prio)"

definition prio_normal ::
  "Game \<Rightarrow> DefaultAI \<Rightarrow> int \<Rightarrow> bool \<Rightarrow> int \<Rightarrow> BuildableField \<Rightarrow> BuildingObserver \<Rightarrow> candidate" where
  "prio_normal g s gametime output_is_needed max_needed_preciousness bf bo =
     (let rest = (\<lambda>prio.
            and_then
              (if inputs bo = [] then prio_normal_no_inputs max_needed_preciousness bf bo prio
               else Inr prio)
              (\<lambda>prio.
                 (let prio = (if inputs bo \<noteq> []
                              then prio_normal_inputs max_needed_preciousness bo prio else prio)
                  in if prio \<le> 0 then skip bo
                     else and_then (consumers_nearby_count bf (outputs bo) 0) (\<lambda>n.
                            score bo (if n > 0 then prio + 1 else prio)))))
      in if production_hint bo \<ge> 0 then skip bo
         else if (cnt_under_construction bo + of_bool (unoccupied bo)) > 0 then skip bo
         else if forced_after bo < gametime \<and> total_count bo = 0 then rest 150
         else if cnt_built bo = 1 \<and> get_gametime g > 40 * 60 * 1000
                 \<and> enhancement (desc bo) \<noteq> None \<and> mines s \<noteq> [] then rest 10
         else if \<not> output_is_needed then skip bo
         else if cnt_built bo = 0 \<and> get_gametime g > 40 * 60 * 1000 then rest kDefaultPrioBoost
         else if cnt_built bo > 1 \<and> current_stats bo > 97
           then rest (0 - kDefaultPrioBoost * of_bool (new_buildings_stop s))
         else if new_buildings_stop s then skip bo
         else rest 0)"

text \<open>The production site branch: the first hint that applies selects the kind.\<close>

definition prio_productionsite ::
  "Game \<Rightarrow> DefaultAI \<Rightarrow> int \<Rightarrow> bool \<Rightarrow> int \<Rightarrow> BuildableField \<Rightarrow> BuildingObserver \<Rightarrow> candidate" where
  "prio_productionsite g s gametime output_is_needed max_needed_preciousness bf bo =
     (if near_border bf \<and> \<not> need_trees bo \<and> \<not> need_stones bo \<and> \<not> is_fisher bo then skip bo
      else if mines_water bo then prio_well g s bf bo
      else if need_trees bo then prio_lumberjack s bf bo
      else if need_stones bo then prio_quarry g s bf bo
      else if is_hunter bo then prio_hunter s bf bo
      else if is_fisher bo then prio_fisher g s max_needed_preciousness bf bo
      else if production_hint bo \<ge> 0 then prio_supporting g s gametime bf bo
      else if recruitment bo \<and> \<not> new_buildings_stop s then prio_recruitment s bo
      else prio_normal g s gametime output_is_needed max_needed_preciousness bf bo)"

subsection \<open>Scoring military sites, warehouses and training sites\<close>

definition prio_militarysite ::
  "DefaultAI \<Rightarrow> int \<Rightarrow> nat \<Rightarrow> int \<Rightarrow> BuildableField \<Rightarrow> BuildingObserver \<Rightarrow> candidate" where
  "prio_militarysite s gametime expansion_mode maxsize bf bo =
     (let rest =
        (if \<not> enemy_nearby bf \<and> military_in_constr_nearby bf > 0 then skip bo
         else
           (let local_boost = (if expansion_mode = kPushExpansion then 200 else 0);
                prio = c_div (unowned_land_nearby bf * 2 * resource_necessity_territory s) 255
                       + c_div (unowned_mines_pots_nearby bf * resource_necessity_mines s) 255
                       + c_div (stones_nearby bf) 2 + c_div (military_loneliness bf) 10 - 60
                       + local_boost
                       + c_div (water_nearby bf * resource_necessity_water s) 255;
                prio = (if resource_necessity_water_needed s
                        then prio + c_div (distant_water bf * resource_necessity_water s) 255
                        else prio);
                prio = (if get_size (desc bo) < maxsize then prio - 5 else prio);
                prio = (if enemy_nearby bf \<and> military_capacity bf < 12
                        then prio + (50 + (12 - military_capacity bf) * 20) else prio)
            in score bo prio))
      in if unowned_land_nearby bf = 0 then skip bo
         else if military_last_build s > gametime - 10 * 1000 then skip bo
         else if expansion_mode = kNoNewMilitary then skip bo
         else if expansion_mode = kDefenseOnly \<and> \<not> enemy_nearby bf then skip bo
         else if enemy_nearby bf \<and> fighting_type bo then rest
         else if unowned_mines_pots_nearby bf > 2 \<and> (mountain_conqueror bo \<or> expansion_type bo)
           then rest
         else if unowned_land_nearby bf \<noteq> 0 \<and> expansion_type bo
                 \<and> num_milit_constructionsites s \<le> 1 then rest
         else if unowned_land_nearby bf \<noteq> 0 \<and> expansion_type bo then
           (if get_size (desc bo) = 2 \<and> c_mod gametime 15 \<ge> 1 then skip bo
            else if get_size (desc bo) = 3 \<and> c_mod gametime 40 \<ge> 1 then skip bo
            else rest)
         else skip bo)"

definition halve_near_enemies_and_borders :: "BuildableField \<Rightarrow> int \<Rightarrow> int" where
  "halve_near_enemies_and_borders bf prio =
     (let prio = (if enemy_nearby bf then c_div prio 2 else prio)
      in if unowned_land_nearby bf \<noteq> 0 then c_div prio 2 else prio)"

definition prio_warehouse :: "DefaultAI \<Rightarrow> BuildableField \<Rightarrow> BuildingObserver \<Rightarrow> candidate" where
  "prio_warehouse s bf bo =
     (if near_border bf then skip bo
      else
        (let prio = (if c_div (int (length (productionsites s) + length (mines s)) + 20) 35
                          > int (numof_warehouses s)
                        \<and> cnt_under_construction bo = 0
                     then 20 else 0)
         in score bo (halve_near_enemies_and_borders bf prio)))"

definition prio_trainingsite :: "DefaultAI \<Rightarrow> BuildableField \<Rightarrow> BuildingObserver \<Rightarrow> candidate" where
  "prio_trainingsite s bf bo =
     (if near_border bf then skip bo
      else
        (let prio = (if int ((length (productionsites s) + 30) div 50) > total_count bo
                        \<and> cnt_under_construction bo = 0
                     then 4 + kDefaultPrioBoost else 0)
         in score bo (halve_near_enemies_and_borders bf prio)))"

subsection \<open>One building on one field\<close>

text \<open>
  The gates in the order of the source: any of them makes the loop go on to the next
  building. \<open>wallclock\<close> is the value of \<^verbatim>\<open>time(nullptr)\<close> at the fourth gate.
\<close>

definition gated :: "Game \<Rightarrow> int \<Rightarrow> int \<Rightarrow> int \<Rightarrow> BuildingObserver \<Rightarrow> bool" where
  "gated g wallclock gametime maxsize bo =
     (\<not> buildable g bo
      \<or> prohibited_till bo > gametime
      \<or> get_size (desc bo) > maxsize
      \<or> (c_mod wallclock 3 = 0 \<and> total_count bo > 0)
      \<or> bo_type bo = MINE
      \<or> (gametime - construction_decision_time bo < kBuildingMinInterval \<and> \<not> need_trees bo)
      \<or> unoccupied bo
      \<or> (\<not> (bo_type bo = MILITARYSITE) \<and> cnt_under_construction bo \<ge> 2))"

text \<open>The scoring by observer type; any other type keeps the priority 0.\<close>

definition prio_by_type ::
  "Game \<Rightarrow> DefaultAI \<Rightarrow> int \<Rightarrow> nat \<Rightarrow> int \<Rightarrow> bool \<Rightarrow> int \<Rightarrow> BuildableField \<Rightarrow> BuildingObserver
     \<Rightarrow> candidate" where
  "prio_by_type g s gametime expansion_mode maxsize output_is_needed max_needed_preciousness
       bf bo =
     (if bo_type bo = PRODUCTIONSITE
        then prio_productionsite g s gametime output_is_needed max_needed_preciousness bf bo
      else if bo_type bo = MILITARYSITE
        then prio_militarysite s gametime expansion_mode maxsize bf bo
      else if bo_type bo = WAREHOUSE then prio_warehouse s bf bo
      else if bo_type bo = TRAININGSITE then prio_trainingsite s bf bo
      else score bo 0)"

text \<open>
  The adjustments after the scoring: space consumers nearby, the stop at priority 0 or
  less, the road side and the waste of a bigger spot.
\<close>

definition final_adjust ::
  "int \<Rightarrow> BuildableField \<Rightarrow> BuildingObserver \<times> int option \<Rightarrow> candidate" where
  "final_adjust maxsize bf c =
     (case c of (bo, r) \<Rightarrow>
        (case r of
           None \<Rightarrow> skip bo
         | Some prio \<Rightarrow>
             (let prio = prio - space_consumers_nearby bf * 10 in
              if prio \<le> 0 then skip bo
              else
                (let prio = prio + (if bf_preferred bf then 1 else 0);
                     prio = prio - (maxsize - get_size (desc bo)) * 5
                 in score bo prio))))"

definition evaluate_candidate ::
  "Game \<Rightarrow> int \<Rightarrow> DefaultAI \<Rightarrow> int \<Rightarrow> nat \<Rightarrow> int \<Rightarrow> BuildableField \<Rightarrow> BuildingObserver \<Rightarrow> candidate" where
  "evaluate_candidate g wallclock s gametime expansion_mode maxsize bf bo =
     (if gated g wallclock gametime maxsize bo then skip bo
      else
        and_then (check_ware_necessity g s bo)
          (\<lambda>(output_is_needed, max_preciousness, max_needed_preciousness).
             and_then
               (prio_by_type g s gametime expansion_mode maxsize output_is_needed
                  max_needed_preciousness bf bo)
               (final_adjust maxsize bf)))"

subsection \<open>The scan over fields and buildings\<close>

text \<open>
  The winner so far: the index of the best building in \<open>buildings\<close> with the proposed
  coordinates (both are set together), its priority, and whether it is a mine.
\<close>

record Proposal =
  best_building :: "(nat \<times> Coords) option"
  proposed_priority :: int
  mine :: bool

text \<open>
  \<^verbatim>\<open>time(nullptr)\<close> is read afresh at the gate of every candidate. The readings of a run
  are a function \<open>wallclock\<close>: \<open>wallclock k j\<close> is what \<^verbatim>\<open>time(nullptr)\<close> returns when the
  candidate of the \<open>k\<close>-th buildable field (counted from 0 in the order of the list) and
  the \<open>j\<close>-th building reaches the gate. The scan over the buildings of one field gets the
  readings of that field.
\<close>

fun scan_buildings ::
  "Game \<Rightarrow> (nat \<Rightarrow> int) \<Rightarrow> int \<Rightarrow> nat \<Rightarrow> int \<Rightarrow> BuildableField \<Rightarrow> nat list
     \<Rightarrow> DefaultAI \<times> Proposal \<Rightarrow> error + (DefaultAI \<times> Proposal)" where
  "scan_buildings g readings gametime expansion_mode maxsize bf [] sp = Inr sp"
| "scan_buildings g readings gametime expansion_mode maxsize bf (j # js) (s, p) =
     and_then
       (evaluate_candidate g (readings j) s gametime expansion_mode maxsize bf (buildings s ! j))
       (\<lambda>(bo, r).
          let s = s\<lparr>buildings := (buildings s)[j := bo]\<rparr>;
              p = (case r of
                     None \<Rightarrow> p
                   | Some prio \<Rightarrow>
                       if prio > proposed_priority p
                       then p\<lparr>best_building := Some (j, bf_coords bf),
                              proposed_priority := prio\<rparr>
                       else p)
          in scan_buildings g readings gametime expansion_mode maxsize bf js (s, p))"

fun scan_fields ::
  "Game \<Rightarrow> (nat \<Rightarrow> nat \<Rightarrow> int) \<Rightarrow> int \<Rightarrow> nat \<Rightarrow> nat \<Rightarrow> BuildableField list
     \<Rightarrow> DefaultAI \<times> Proposal \<Rightarrow> error + (DefaultAI \<times> Proposal)" where
  "scan_fields g wallclock gametime expansion_mode k [] sp = Inr sp"
| "scan_fields g wallclock gametime expansion_mode k (bf # rest) (s, p) =
     (if bf_next_update_due bf < gametime - 8000
        then scan_fields g wallclock gametime expansion_mode (Suc k) rest (s, p)
      else if field_blocked (blocked_fields s) (bf_coords bf) False
        then scan_fields g wallclock gametime expansion_mode (Suc k) rest (s, p)
      else
        and_then
          (scan_buildings g (wallclock k) gametime expansion_mode
             (int (get_buildcaps_size g (bf_coords bf))) bf [0..<length (buildings s)] (s, p))
          (scan_fields g wallclock gametime expansion_mode (Suc k) rest))"

subsection \<open>Mines\<close>

text \<open>
  \<^verbatim>\<open>update_all_mineable_fields\<close>: at most 40 due fields from the front of the queue; a field
  the player lost is dropped, one that is no mine spot any more becomes unusable, the
  others are updated and go to the back.
\<close>

function update_all_mineable_fields_loop ::
  "Game \<Rightarrow> int \<Rightarrow> MineableField list \<Rightarrow> Coords list \<Rightarrow> nat
     \<Rightarrow> MineableField list \<times> Coords list" where
  "update_all_mineable_fields_loop g gametime queue unusable i =
     (if queue \<noteq> [] \<and> mf_next_update_due (hd queue) \<le> gametime \<and> i < 40 then
        (let mf = hd queue in
         if get_owned_by g (mf_coords mf) \<noteq> player_number g
           then update_all_mineable_fields_loop g gametime (tl queue) unusable i
         else if \<not> get_buildcaps_mine g (mf_coords mf)
           then update_all_mineable_fields_loop g gametime (tl queue)
                  (unusable @ [mf_coords mf]) i
         else update_all_mineable_fields_loop g gametime
                (tl queue @ [(update_mineable_field g mf)
                                \<lparr>mf_next_update_due := gametime + kFieldUpdateInterval\<rparr>])
                unusable (i + 1))
      else (queue, unusable))"
  by pat_completeness auto
termination
  by (relation "measure (\<lambda>(g, gametime, queue, unusable, i). length queue + (40 - i))")
     (auto simp: neq_Nil_conv)

declare update_all_mineable_fields_loop.simps [simp del]

definition update_all_mineable_fields :: "Game \<Rightarrow> DefaultAI \<Rightarrow> int \<Rightarrow> DefaultAI" where
  "update_all_mineable_fields g s gametime =
     (case update_all_mineable_fields_loop g gametime (mineable_fields s) (unusable_fields s) 0
      of (queue, unusable) \<Rightarrow> s\<lparr>mineable_fields := queue, unusable_fields := unusable\<rparr>)"

text \<open>
  The priority of a mine on a mineable field: the resource amount less the nearby mines
  times the penalty; fields of another resource, of priority below 2 or blocked are
  passed over.
\<close>

fun mine_blocked :: "BlockedField list \<Rightarrow> Coords \<Rightarrow> bool" where
  "mine_blocked [] c = False"
| "mine_blocked (k # rest) c = (if c = bl_coords k then True else mine_blocked rest c)"

definition mine_priority ::
  "Game \<Rightarrow> BlockedField list \<Rightarrow> BuildingObserver \<Rightarrow> int \<Rightarrow> MineableField \<Rightarrow> int option" where
  "mine_priority g blocked bo nearness_penalty mf =
     (if get_resources g (mf_coords mf) \<noteq> bo_mines bo then None
      else
        (let prio = get_resources_amount g (mf_coords mf);
             prio = prio - mines_nearby mf * nearness_penalty
         in if prio < 2 then None
            else if mine_blocked blocked (mf_coords mf) then None
            else Some (prio + (if mf_preferred mf then 1 else 0))))"

fun scan_mineable_fields ::
  "Game \<Rightarrow> BlockedField list \<Rightarrow> nat \<Rightarrow> BuildingObserver \<Rightarrow> int \<Rightarrow> MineableField list \<Rightarrow> Proposal
     \<Rightarrow> Proposal" where
  "scan_mineable_fields g blocked i bo nearness_penalty [] p = p"
| "scan_mineable_fields g blocked i bo nearness_penalty (mf # rest) p =
     scan_mineable_fields g blocked i bo nearness_penalty rest
       (case mine_priority g blocked bo nearness_penalty mf of
          None \<Rightarrow> p
        | Some prio \<Rightarrow>
            if prio > proposed_priority p
            then p\<lparr>best_building := Some (i, mf_coords mf), proposed_priority := prio,
                   mine := True\<rparr>
            else p)"

definition nearness_penalty_of :: "BuildingObserver \<Rightarrow> int" where
  "nearness_penalty_of bo =
     (if (cnt_built bo + cnt_under_construction bo) = 0 then 0 else 10)"

fun scan_mines ::
  "Game \<Rightarrow> int \<Rightarrow> DefaultAI \<Rightarrow> nat list \<Rightarrow> Proposal \<Rightarrow> error + Proposal" where
  "scan_mines g gametime s [] p = Inr p"
| "scan_mines g gametime s (i # is) p =
     (if \<not> (length (productionsites s) > 8) then Inr p
      else
        (let bo = buildings s ! i in
         if \<not> buildable g bo \<or> bo_type bo \<noteq> MINE then scan_mines g gametime s is p
         else if prohibited_till bo > gametime then scan_mines g gametime s is p
         else if gametime - construction_decision_time bo < kBuildingMinInterval
           then scan_mines g gametime s is p
         else if (cnt_under_construction bo + of_bool (unoccupied bo)) > 0
           then scan_mines g gametime s is p
         else
           and_then (check_ware_necessity g s bo)
             (\<lambda>(output_is_needed, max_preciousness, max_needed_preciousness).
                if \<not> output_is_needed \<and> total_count bo > 0 then scan_mines g gametime s is p
                else if total_count bo \<ge> 1 \<and> current_stats bo < 50
                  then scan_mines g gametime s is p
                else scan_mines g gametime s is
                       (scan_mineable_fields g (blocked_fields s) i bo (nearness_penalty_of bo)
                          (mineable_fields s) p))))"

definition mines_section :: "Game \<Rightarrow> int \<Rightarrow> DefaultAI \<times> Proposal \<Rightarrow> error + (DefaultAI \<times> Proposal)" where
  "mines_section g gametime sp =
     (case sp of (s, p) \<Rightarrow>
        if gametime > next_mine_construction_due s then
          (let s = update_all_mineable_fields g s gametime;
               s = s\<lparr>next_mine_construction_due := gametime + kIdleMineUpdateInterval\<rparr>
           in if mineable_fields s \<noteq> []
              then and_then (scan_mines g gametime s [0..<length (buildings s)] p)
                     (\<lambda>p. Inr (s, p))
              else Inr (s, p))
        else Inr (s, p))"

subsection \<open>Sending the build command\<close>

definition block_region :: "Game \<Rightarrow> Coords \<Rightarrow> nat \<Rightarrow> int \<Rightarrow> BlockedField list" where
  "block_region g c block_area block_time =
     map (\<lambda>loc. \<lparr>bl_coords = loc, blocked_until = get_gametime g + block_time\<rparr>)
       (region g c block_area)"

text \<open>
  The nearby fields blocked with the site: around a space consumer for 45 minutes, around
  a military site for 25 seconds.
\<close>

definition nearby_blocks :: "Game \<Rightarrow> Coords \<Rightarrow> BuildingObserver \<Rightarrow> BlockedField list" where
  "nearby_blocks g proposed_coords best =
     (if (space_consumer best \<and> \<not> plants_trees best) \<or> bo_type best = MILITARYSITE
      then
        (if space_consumer best then block_region g proposed_coords 3 (45 * 60 * 1000)
         else block_region g proposed_coords 6 (25 * 1000))
      else [])"

definition build_winner :: "Game \<Rightarrow> int \<Rightarrow> DefaultAI \<Rightarrow> Proposal \<Rightarrow> bool \<times> DefaultAI" where
  "build_winner g gametime s p =
     (case best_building p of
        None \<Rightarrow> (False, s)
      | Some (b, proposed_coords) \<Rightarrow>
          (let best = buildings s ! b;
               s = s\<lparr>sent := sent s @
                       [send_player_build (player_number g) proposed_coords (bo_id best)]\<rparr>;
               s = s\<lparr>blocked_fields := blocked_fields s @
                       [\<lparr>bl_coords = proposed_coords,
                         blocked_until = get_gametime g + 120000\<rparr>]\<rparr>;
               s = s\<lparr>blocked_fields := blocked_fields s @ nearby_blocks g proposed_coords best\<rparr>;
               s = (if \<not> (bo_type best = MILITARYSITE)
                    then s\<lparr>buildings :=
                            (buildings s)[b := best\<lparr>construction_decision_time := gametime\<rparr>]\<rparr>
                    else s\<lparr>military_last_build := gametime,
                           buildings :=
                             (buildings s)[b := best\<lparr>construction_decision_time :=
                                gametime - c_div kBuildingMinInterval 2\<rparr>]\<rparr>);
               s = (if mine p
                    then s\<lparr>next_mine_construction_due := gametime + kBusyMineUpdateInterval\<rparr>
                    else s\<lparr>m_buildable_changed := True\<rparr>)
           in (True, s)))"

subsection \<open>The whole function\<close>

text \<open>
  The function opens with the strategic regime, removes the outdated blocked fields,
  scans the buildable fields and then the mines, and builds the winner.
  \<open>wallclock\<close> gives the readings of \<^verbatim>\<open>time(nullptr)\<close> during the run. The result is the
  return value and the state, or the exception that left the function.
\<close>

definition strategic_regime :: "Game \<Rightarrow> DefaultAI \<Rightarrow> int \<Rightarrow> nat \<times> DefaultAI" where
  "strategic_regime g s gametime =
     (case set_spots g s of (spots_avail, s) \<Rightarrow>
        (let s = set_new_buildings_stop s gametime;
             expansion_mode = get_expansion_mode s;
             s = set_resource_necessity spots_avail s
         in (expansion_mode, s)))"

definition construct_building ::
  "Game \<Rightarrow> (nat \<Rightarrow> nat \<Rightarrow> int) \<Rightarrow> DefaultAI \<Rightarrow> int \<Rightarrow> error + (bool \<times> DefaultAI)" where
  "construct_building g wallclock s gametime =
     (case strategic_regime g s gametime of (expansion_mode, s) \<Rightarrow>
        (let s = s\<lparr>blocked_fields := remove_outdated (get_gametime g) (blocked_fields s)\<rparr>;
             p = \<lparr>best_building = None, proposed_priority = 0, mine = False\<rparr>
         in and_then
              (scan_fields g wallclock gametime expansion_mode 0 (buildable_fields s) (s, p))
              (\<lambda>sp. and_then (mines_section g gametime sp)
                 (\<lambda>(s, p). Inr (build_winner g gametime s p)))))"


text \<open>
  The free spots as the function counts them: the buildable fields whose node takes a
  small, a medium or a big building.
\<close>

definition free_spots :: "Game \<Rightarrow> DefaultAI \<Rightarrow> int" where
  "free_spots g s =
     int (length (filter (\<lambda>bf. nodecaps_size g (bf_coords bf) = BUILDCAPS_SMALL
                                \<or> nodecaps_size g (bf_coords bf) = BUILDCAPS_MEDIUM
                                \<or> nodecaps_size g (bf_coords bf) = BUILDCAPS_BIG)
                    (buildable_fields s)))"

text \<open>
  Two observers are of the same building type, with the same number built and under
  construction, when these fields agree; the scan changes only target, stock level and
  its time stamp.
\<close>

definition same_building :: "BuildingObserver \<Rightarrow> BuildingObserver \<Rightarrow> bool" where
  "same_building a b =
     (bo_id a = bo_id b \<and> bo_type a = bo_type b \<and> space_consumer a = space_consumer b
      \<and> plants_trees a = plants_trees b \<and> cnt_built a = cnt_built b
      \<and> cnt_under_construction a = cnt_under_construction b)"

section \<open>The parts of the engine that are not embedded\<close>



section \<open>Roads: \<^verbatim>\<open>improve_roads\<close> and \<^verbatim>\<open>create_shortcut_road\<close>\<close>

subsection \<open>Splitting the front road\<close>





text \<open>
  The nodes the walk tries, in the order it tries them, as indices into the path; and the
  first element of a list that satisfies a test.
\<close>

function inward :: "nat \<Rightarrow> nat \<Rightarrow> nat list" where
  "inward i j = (if i \<ge> j then i # j # inward (i - 1) (j + 1) else [])"
  by pat_completeness auto
termination
  by (relation "measure (\<lambda>(i, j). Suc i - j)") auto

declare inward.simps [simp del]

subsection \<open>Giving up on a flag\<close>

text \<open>
  \<^verbatim>\<open>get_economy_observer\<close>: the index of the first observer of the economy, or a new
  observer pushed to the front. The constructor of the observer is declared in a header
  that is not part of the file; the new observer has no flags and, as taken here, a
  counter at 0.
\<close>

fun find_economy :: "EconomyObserver list \<Rightarrow> nat \<Rightarrow> nat \<Rightarrow> nat option" where
  "find_economy [] e i = None"
| "find_economy (obs # rest) e i =
     (if economy obs = e then Some i else find_economy rest e (Suc i))"

definition get_economy_observer :: "DefaultAI \<Rightarrow> nat \<Rightarrow> nat \<times> DefaultAI" where
  "get_economy_observer s e =
     (case find_economy (economies s) e 0 of
        Some i \<Rightarrow> (i, s)
      | None \<Rightarrow>
          (0, s\<lparr>economies :=
                  \<lparr>economy = e, flags = [], failed_connection_tries = 0\<rparr> # economies s\<rparr>))"

text \<open>
  \<^verbatim>\<open>create_shortcut_road\<close> up to the search for near flags; \<open>road_search\<close> is the rest of the
  function. The counter is an unsigned integer of the header; it is a natural number here.
\<close>

definition create_shortcut_road ::
  "(Game \<Rightarrow> DefaultAI \<Rightarrow> nat \<Rightarrow> nat \<Rightarrow> nat \<Rightarrow> error + (bool \<times> DefaultAI))
     \<Rightarrow> Game \<Rightarrow> DefaultAI \<Rightarrow> nat \<Rightarrow> nat \<Rightarrow> nat \<Rightarrow> error + (bool \<times> DefaultAI)" where
  "create_shortcut_road road_search g s flag checkradius minred =
     (case get_economy_observer s (flag_economy g flag) of (i, s) \<Rightarrow>
        (let eco = economies s ! i;
             eco = (if warehouses_empty g (flag_economy g flag)
                    then eco\<lparr>failed_connection_tries := failed_connection_tries eco + 1\<rparr>
                    else eco\<lparr>failed_connection_tries := 0\<rparr>);
             s = s\<lparr>economies := (economies s)[i := eco]\<rparr>
         in if failed_connection_tries eco > 3 + length (flags eco) * length (flags eco) then
              (case flag_building g flag of
                 Some position \<Rightarrow>
                   Inr (True,
                        s\<lparr>blocked_fields := blocked_fields s @
                             [\<lparr>bl_coords = position,
                               blocked_until = get_gametime g + 15 * 60 * 1000\<rparr>],
                          economies :=
                            (economies s)[i := eco\<lparr>flags := removeAll flag (flags eco)\<rparr>],
                          sent := sent s @ [send_player_bulldoze flag]\<rparr>)
               | None \<Rightarrow> Inr (True, s))
            else road_search g s flag checkradius minred))"

section \<open>The main loop\<close>





subsection \<open>The need for a production site\<close>




section \<open>Field index: \<^verbatim>\<open>update_buildable_field\<close>\<close>

text \<open>
  \<^verbatim>\<open>get_building_observer\<close> of the initialised engine: the index of the first observer of
  that name, or the exception the function throws.
\<close>

fun get_building_observer_from :: "BuildingObserver list \<Rightarrow> string \<Rightarrow> nat \<Rightarrow> error + nat" where
  "get_building_observer_from [] n i = Inl (UnknownBuilding n)"
| "get_building_observer_from (bo # rest) n i =
     (if name bo = n then Inr i else get_building_observer_from rest n (Suc i))"

definition get_building_observer :: "DefaultAI \<Rightarrow> string \<Rightarrow> error + nat" where
  "get_building_observer s n = get_building_observer_from (buildings s) n 0"

text \<open>\<^verbatim>\<open>++v.at(i)\<close> on a vector of counters.\<close>

definition increment_at :: "int list \<Rightarrow> nat \<Rightarrow> error + int list" where
  "increment_at v i = (if i < length v then Inr (v[i := v ! i + 1]) else Inl OutOfRange)"

fun increment_consumers :: "nat list \<Rightarrow> BuildableField \<Rightarrow> error + BuildableField" where
  "increment_consumers [] field = Inr field"
| "increment_consumers (i # ins) field =
     and_then (increment_at (consumers_nearby field) i) (\<lambda>v.
       increment_consumers ins (field\<lparr>consumers_nearby := v\<rparr>))"

fun increment_producers :: "nat list \<Rightarrow> BuildableField \<Rightarrow> error + BuildableField" where
  "increment_producers [] field = Inr field"
| "increment_producers (out # outs) field =
     and_then (increment_at (producers_nearby field) out) (\<lambda>v.
       increment_producers outs (field\<lparr>producers_nearby := v\<rparr>))"

definition consider_productionsite_influence ::
  "Game \<Rightarrow> BuildableField \<Rightarrow> Coords \<Rightarrow> BuildingObserver \<Rightarrow> error + BuildableField" where
  "consider_productionsite_influence g field c bo =
     (let field = (if space_consumer bo \<and> \<not> plants_trees bo
                      \<and> calc_distance g c (bf_coords field) < 8
                   then field\<lparr>space_consumers_nearby := space_consumers_nearby field + 1\<rparr>
                   else field)
      in and_then (increment_consumers (inputs bo) field) (increment_producers (outputs bo)))"

text \<open>
  The unowned mine spots near the field, counted in unsigned 32-bit arithmetic as the
  source does.
\<close>

definition count_unowned_mines_pots :: "Game \<Rightarrow> DefaultAI \<Rightarrow> BuildableField \<Rightarrow> nat \<Rightarrow> int" where
  "count_unowned_mines_pots g s field rng =
     (if (length (mines s) > 8 \<and> c_mod (get_gametime g) 3 > 0) \<or> unowned_land_nearby field = 0
      then 0
      else
        (let close_mines = int (find_unowned_mines_pots g (bf_coords field) 4);
             distant_mines = int (find_unowned_mines_pots g (bf_coords field)
                                    (if rng + 6 < 12 then 12 else rng + 6));
             distant_mines = (distant_mines - close_mines) mod 4294967296;
             pots = (3 * close_mines + distant_mines div 2) mod 4294967296
         in if distant_mines > 0 then pots + 15 else pots))"

text \<open>
  The first pass over the immovables, of the general update. An immovable of another
  player marks the enemy and the time it was seen and is passed over. There is no class
  hierarchy in the file; a training site is a production site there, as the header of
  the training site declares it.
\<close>

definition is_ProductionSite :: "BaseImmovable \<Rightarrow> bool" where
  "is_ProductionSite b = (imm_class b = ProductionSite \<or> imm_class b = TrainingSite)"

definition influence_of_constructionsite ::
  "Game \<Rightarrow> DefaultAI \<Rightarrow> ImmovableFound \<Rightarrow> BuildableField \<Rightarrow> error + BuildableField" where
  "influence_of_constructionsite g s imm field =
     (case imm_class (object imm) of
        ConstructionSite target_descr \<Rightarrow>
          if descr_class target_descr = ProductionSiteDescr
          then and_then (get_building_observer s (descr_name (descr (object imm)))) (\<lambda>b.
                 consider_productionsite_influence g field (coords imm) (buildings s ! b))
          else Inr field
      | _ \<Rightarrow> Inr field)"

definition influence_of_productionsite ::
  "Game \<Rightarrow> DefaultAI \<Rightarrow> ImmovableFound \<Rightarrow> BuildableField \<Rightarrow> error + BuildableField" where
  "influence_of_productionsite g s imm field =
     (if is_ProductionSite (object imm)
      then and_then (get_building_observer s (descr_name (descr (object imm)))) (\<lambda>b.
             consider_productionsite_influence g field (coords imm) (buildings s ! b))
      else Inr field)"

definition foreign :: "Game \<Rightarrow> BaseImmovable \<Rightarrow> bool" where
  "foreign g b = (case owner b of None \<Rightarrow> False | Some p \<Rightarrow> p \<noteq> player_number g)"

definition mark_enemy :: "Game \<Rightarrow> BaseImmovable \<Rightarrow> BuildableField \<Rightarrow> BuildableField" where
  "mark_enemy g b field =
     (case owner b of
        None \<Rightarrow> field
      | Some p \<Rightarrow> if is_hostile g p then field\<lparr>enemy_nearby := True\<rparr> else field)"

fun scan_immovables ::
  "Game \<Rightarrow> ImmovableFound list \<Rightarrow> DefaultAI \<times> BuildableField
     \<Rightarrow> error + (DefaultAI \<times> BuildableField)" where
  "scan_immovables g [] sf = Inr sf"
| "scan_immovables g (imm # rest) (s, field) =
     (if foreign g (object imm)
      then scan_immovables g rest
             (s\<lparr>enemy_last_seen := get_gametime g\<rparr>, mark_enemy g (object imm) field)
      else
        and_then
          (if is_Building (object imm)
           then and_then (influence_of_constructionsite g s imm field)
                  (influence_of_productionsite g s imm)
           else Inr field)
          (\<lambda>field.
             scan_immovables g rest
               (s, if has_attribute (object imm) ''tree''
                   then field\<lparr>trees_nearby := trees_nearby field + 1\<rparr> else field)))"

definition count_stones :: "ImmovableFound list \<Rightarrow> int" where
  "count_stones immovables =
     int (length (filter (\<lambda>imm. has_attribute (object imm) ''granite'') immovables))"

text \<open>
  The water and the fish near the field. The second search for water appends to the list
  of the first. The test of the fish assigns: \<^verbatim>\<open>field.fish_nearby_ = -1 || ...\<close> stores the
  truth value of the disjunction, whose first operand is the constant \<^verbatim>\<open>-1\<close>, and that
  value is the condition.
\<close>

definition count_water :: "Game \<Rightarrow> DefaultAI \<Rightarrow> BuildableField \<Rightarrow> BuildableField" where
  "count_water g s field =
     (if water_nearby field = - 1 then
        (let water_list = find_water g (bf_coords field) 5;
             field = field\<lparr>water_nearby := int (length water_list)\<rparr>
         in if resource_necessity_water_needed s
            then (let water_list = water_list @ find_water g (bf_coords field) 14
                  in field\<lparr>distant_water := int (length water_list) - water_nearby field\<rparr>)
            else field)
      else field)"

definition count_fish :: "Game \<Rightarrow> BuildableField \<Rightarrow> BuildableField" where
  "count_fish g field =
     (if water_nearby field > 0 then
        (let field = field\<lparr>fish_nearby :=
                             of_bool ((- 1 :: int) \<noteq> 0 \<or> c_mod (get_gametime g) 10 = 0)\<rparr>
         in if fish_nearby field \<noteq> 0
            then field\<lparr>fish_nearby := int (length (find_fish g (bf_coords field) 6))\<rparr>
            else field)
      else field)"

definition count_critters :: "Game \<Rightarrow> BuildableField \<Rightarrow> BuildableField" where
  "count_critters g field =
     (if c_mod (get_gametime g) 10 = 0
      then field\<lparr>critters_nearby := int (find_critters g (bf_coords field) 6)\<rparr>
      else field)"

definition general_update ::
  "Game \<Rightarrow> DefaultAI \<Rightarrow> BuildableField \<Rightarrow> ImmovableFound list
     \<Rightarrow> error + (DefaultAI \<times> BuildableField)" where
  "general_update g s field immovables =
     (let field = field\<lparr>bf_preferred := False, enemy_nearby := False, military_capacity := 0,
                        military_loneliness := 1000, military_presence := 0,
                        military_stationed := 0, trees_nearby := 0,
                        space_consumers_nearby := 0,
                        producers_nearby := replicate (length (wares s)) 0,
                        consumers_nearby := replicate (length (wares s)) 0\<rparr>;
          field = count_water g s field;
          field = count_fish g field;
          field = count_critters g field;
          fse = get_neighbour_se g (bf_coords field);
          field = (if is_flag_or_flaggable_road g fse
                   then field\<lparr>bf_preferred := True\<rparr> else field)
      in and_then (scan_immovables g immovables (s, field)) (\<lambda>(s, field).
           let field = (if stones_nearby field > 0
                        then field\<lparr>stones_nearby := count_stones immovables\<rparr> else field);
               field = (if ground_water field > 0
                        then field\<lparr>ground_water := get_resources_amount g (bf_coords field)\<rparr>
                        else field)
           in Inr (s, field)))"

text \<open>
  The second pass, over the immovables of the larger radius, sets the military measures.
  \<open>times_ratio x dist radius\<close> stands for the value \<^verbatim>\<open>x *= static_cast<double_t>(dist) / radius\<close>
  leaves in \<^verbatim>\<open>x\<close>: the floating-point product converted back to the integer member.
\<close>

definition military_of_constructionsite ::
  "(int \<Rightarrow> int \<Rightarrow> int \<Rightarrow> int) \<Rightarrow> Game \<Rightarrow> ImmovableFound \<Rightarrow> BuildableField \<Rightarrow> BuildableField" where
  "military_of_constructionsite times_ratio g imm field =
     (case imm_class (object imm) of
        ConstructionSite target_descr \<Rightarrow>
          if descr_class target_descr = MilitarySiteDescr then
            (let dist = int (calc_distance g (bf_coords field) (coords imm));
                 radius = get_conquers target_descr + 4;
                 v = radius - dist
             in if v > 0
                then field\<lparr>military_capacity := military_capacity field
                              + (c_div (get_max_number_of_soldiers target_descr) 2 + 1),
                            military_loneliness :=
                              times_ratio (military_loneliness field) dist radius,
                            military_in_constr_nearby := military_in_constr_nearby field + 1\<rparr>
                else field)
          else field
      | _ \<Rightarrow> field)"

definition military_of_militarysite ::
  "(int \<Rightarrow> int \<Rightarrow> int \<Rightarrow> int) \<Rightarrow> Game \<Rightarrow> ImmovableFound \<Rightarrow> BuildableField \<Rightarrow> BuildableField" where
  "military_of_militarysite times_ratio g imm field =
     (case imm_class (object imm) of
        MilitarySite capacity stationed \<Rightarrow>
          (let dist = int (calc_distance g (bf_coords field) (coords imm));
               radius = get_conquers (descr (object imm)) + 4;
               v = radius - dist
           in if v > 0 \<and> dist > 0
              then (let field = field\<lparr>military_capacity := military_capacity field + capacity,
                                       military_presence :=
                                         military_presence field + int stationed\<rparr>;
                        field = (if stationed \<noteq> 0
                                 then field\<lparr>military_stationed := military_stationed field + 1\<rparr>
                                 else field\<lparr>military_in_constr_nearby :=
                                              military_in_constr_nearby field + 1\<rparr>)
                    in field\<lparr>military_loneliness :=
                               times_ratio (military_loneliness field) dist radius\<rparr>)
              else field)
      | _ \<Rightarrow> field)"

fun scan_military ::
  "(int \<Rightarrow> int \<Rightarrow> int \<Rightarrow> int) \<Rightarrow> Game \<Rightarrow> ImmovableFound list \<Rightarrow> BuildableField
     \<Rightarrow> BuildableField" where
  "scan_military times_ratio g [] field = field"
| "scan_military times_ratio g (imm # rest) field =
     (if foreign g (object imm)
      then scan_military times_ratio g rest (mark_enemy g (object imm) field)
      else if is_Building (object imm)
      then scan_military times_ratio g rest
             (military_of_militarysite times_ratio g imm
                (military_of_constructionsite times_ratio g imm field))
      else scan_military times_ratio g rest field)"

definition military_update ::
  "(int \<Rightarrow> int \<Rightarrow> int \<Rightarrow> int) \<Rightarrow> Game \<Rightarrow> BuildableField \<Rightarrow> nat \<Rightarrow> BuildableField" where
  "military_update times_ratio g field rng =
     (let immovables = find_immovables g (bf_coords field) (if rng < 10 then 10 else rng);
          field = field\<lparr>military_stationed := 0, military_in_constr_nearby := 0,
                        military_capacity := 0, military_loneliness := 1000,
                        military_presence := 0\<rparr>
      in scan_military times_ratio g immovables field)"

text \<open>
  The function opens with the unowned land and the unowned mine spots near the field, which
  it counts on every call.
\<close>

definition count_unowned_land :: "Game \<Rightarrow> DefaultAI \<Rightarrow> BuildableField \<Rightarrow> nat \<Rightarrow> BuildableField" where
  "count_unowned_land g s field rng =
     (let field = field\<lparr>unowned_land_nearby := int (find_unowned g (bf_coords field) rng)\<rparr>;
          field = field\<lparr>near_border := False\<rparr>;
          field = (if unowned_land_nearby field > 0 \<and> find_unowned g (bf_coords field) 4 > 0
                   then field\<lparr>near_border := True\<rparr> else field)
      in field\<lparr>unowned_mines_pots_nearby := count_unowned_mines_pots g s field rng\<rparr>)"

definition update_buildable_field ::
  "(int \<Rightarrow> int \<Rightarrow> int \<Rightarrow> int) \<Rightarrow> Game \<Rightarrow> DefaultAI \<Rightarrow> BuildableField \<Rightarrow> nat \<Rightarrow> bool
     \<Rightarrow> error + (DefaultAI \<times> BuildableField)" where
  "update_buildable_field times_ratio g s field rng military =
     (let field = count_unowned_land g s field rng;
          immovables = find_immovables g (bf_coords field) rng
      in and_then (if \<not> military then general_update g s field immovables else Inr (s, field))
           (\<lambda>(s, field). Inr (s, military_update times_ratio g field rng)))"


text \<open>What the second pass does with one immovable.\<close>

definition lonely_step ::
  "(int \<Rightarrow> int \<Rightarrow> int \<Rightarrow> int) \<Rightarrow> Game \<Rightarrow> ImmovableFound \<Rightarrow> BuildableField \<Rightarrow> BuildableField" where
  "lonely_step tr g imm f =
     (if foreign g (object imm) then mark_enemy g (object imm) f
      else if is_Building (object imm)
      then military_of_militarysite tr g imm (military_of_constructionsite tr g imm f)
      else f)"


section \<open>A small game for concrete runs\<close>

text \<open>
  The constructor's initial values for the members above, for a player of the given
  type.
\<close>

definition DefaultAI_new :: "nat \<Rightarrow> DefaultAI" where
  "DefaultAI_new t =
     \<lparr>ai_type = t, tribe_is_null = True, buildable_fields = [], mineable_fields = [], unusable_fields = [],
      buildings = [], wares = [], productionsites = [], mines = [], militarysites = [],
      roads = [], new_flags = [], economies = [], blocked_fields = [],
      num_constructionsites = 0, num_milit_constructionsites = 0,
      num_prod_constructionsites = 0, numof_warehouses = 0, next_road_due = 2000,
      next_stats_update_due = 30000, next_construction_due = 1000,
      next_mine_construction_due = 0, next_attack_consideration_due = 300000,
      next_bf_check_due = 1000, time_of_last_construction = 0, inhibit_road_building = 0,
      enemy_last_seen = - 2 * 60 * 1000, new_buildings_stop = False,
      resource_necessity_territory = 255, resource_necessity_mines = 255,
      resource_necessity_water = 0, resource_necessity_water_needed = False,
      unstationed_milit_buildings = 0, military_last_build = - 60 * 1000, spots = 0,
      m_buildable_changed = True, m_mineable_changed = True, sent = []\<rparr>"

text \<open>
  A building observer as \<^verbatim>\<open>late_initialization\<close> leaves it for a descriptor without
  hints, and the observer of a lumberjack's hut with one hut built.
\<close>

definition descr_new :: "string \<Rightarrow> DescrClass \<Rightarrow> int \<Rightarrow> BuildingDescr" where
  "descr_new n c sz =
     \<lparr>descr_name = n, descr_class = c, get_ismine = False, get_size = sz, get_conquers = 0,
      get_max_number_of_soldiers = 0, enhancement = None\<rparr>"

definition observer_new :: "string \<Rightarrow> nat \<Rightarrow> BuildingDescr \<Rightarrow> ObserverType \<Rightarrow> BuildingObserver" where
  "observer_new n i d t =
     \<lparr>name = n, bo_id = i, desc = d, bo_type = t, is_buildable = True, need_trees = False,
      need_stones = False, need_water = False, mines_water = False, recruitment = False,
      space_consumer = False, expansion_type = False, fighting_type = False,
      mountain_conqueror = False, plants_trees = False, is_hunter = False, is_fisher = False,
      prohibited_till = 0, forced_after = 0, production_hint = - 1, bo_mines = 0,
      cnt_built = 0, cnt_under_construction = 0, cnt_target = 1, unoccupied = False,
      current_stats = 0, stocklevel = 0, stocklevel_time = 0,
      construction_decision_time = - 60 * 60 * 1000, inputs = [], outputs = []\<rparr>"

definition lumberjack :: BuildingObserver where
  "lumberjack =
     (observer_new ''lumberjacks_hut'' 0 (descr_new ''lumberjacks_hut'' ProductionSiteDescr 1)
        PRODUCTIONSITE)
       \<lparr>need_trees := True, outputs := [0], cnt_built := 1\<rparr>"

definition field_new :: "Coords \<Rightarrow> int \<Rightarrow> BuildableField" where
  "field_new c due =
     \<lparr>bf_coords = c, bf_next_update_due = due, bf_preferred = False, enemy_nearby = False,
      unowned_land_nearby = 0, near_border = False, unowned_mines_pots_nearby = 0,
      trees_nearby = 0, stones_nearby = 1, water_nearby = - 1, distant_water = 0,
      fish_nearby = - 1, critters_nearby = 0, ground_water = 1, space_consumers_nearby = 0,
      producers_nearby = [], consumers_nearby = [], military_capacity = 0,
      military_loneliness = 1000, military_in_constr_nearby = 0, military_presence = 0,
      military_stationed = 0\<rparr>"

text \<open>
  A game at time 100 s in which player 1 owns every node, every node takes a small
  building, no immovable stands anywhere and no economy has a warehouse.
\<close>

definition quiet_game :: Game where
  "quiet_game =
     \<lparr>get_gametime = 100000, player_number = 1, is_hostile = (\<lambda>p. False),
      is_building_type_allowed = (\<lambda>b. True), get_owned_by = (\<lambda>c. 1),
      nodecaps_size = (\<lambda>c. 1), nodecaps_flag = (\<lambda>c. False),
      get_buildcaps_size = (\<lambda>c. 1), get_buildcaps_mine = (\<lambda>c. True),
      get_immovable = (\<lambda>c. None), get_resources = (\<lambda>c. 0),
      get_resources_amount = (\<lambda>c. 0), get_brn = (\<lambda>c. (fst c + 1, snd c + 1)),
      calc_distance = (\<lambda>a b. nat (max \<bar>fst a - fst b\<bar> \<bar>snd a - snd b\<bar>)),
      find_immovables = (\<lambda>c r. []), region = (\<lambda>c r. [c]),
      warehouses_empty = (\<lambda>e. True), stock_ware = (\<lambda>e w. 0),
      needs_ware = (\<lambda>e w. False),
      get_neighbour_se = (\<lambda>c. (fst c + 1, snd c + 1)),
      find_unowned = (\<lambda>c r. 0), find_unowned_mines_pots = (\<lambda>c r. 0),
      find_water = (\<lambda>c r. []), find_fish = (\<lambda>c r. []), find_critters = (\<lambda>c r. 0),
      get_path = (\<lambda>r. []), flag_economy = (\<lambda>f. 0), flag_building = (\<lambda>f. None),
      get_nrplayers = 1, player_exists = (\<lambda>p. p = 1), get_general_statistics = []\<rparr>"

text \<open>
  An initialised player with thirty production sites, seven more under construction,
  twenty military sites and three mines, whose only free field is a copse with four trees nearby and
  whose only building type is the lumberjack's hut.
\<close>

definition copse :: BuildableField where
  "copse = (field_new (5, 5) 100000)\<lparr>trees_nearby := 4, producers_nearby := [0],
                                       consumers_nearby := [0]\<rparr>"

definition a_site :: ProductionSiteObserver where
  "a_site = \<lparr>ps_site = 0, ps_bo = 0, built_time = 0, unoccupied_till = 0, stats_zero = 0,
             no_resources_count = 0\<rparr>"

definition a_post :: MilitarySiteObserver where
  "a_post = \<lparr>ms_site = 0, ms_bo = 0, checks = 1, enemies_nearby = False\<rparr>"

definition woodland :: DefaultAI where
  "woodland =
     (DefaultAI_new 1)
       \<lparr>tribe_is_null := False,
        buildable_fields := [copse],
        buildings := [lumberjack],
        wares := [\<lparr>producers = 1, consumers = 0, preciousness = 2\<rparr>],
        productionsites := replicate 30 a_site,
        mines := replicate 3 a_site,
        militarysites := replicate 20 a_post,
        num_prod_constructionsites := 7,
        next_mine_construction_due := 200000\<rparr>"

text \<open>
  The same game with a coal seam of amount 50 under every node and one finished mine
  within radius 5 of every node; a mine spot at (7, 7) and the observer of a coal mine
  with one mine built.
\<close>

definition a_mine :: BaseImmovable where
  "a_mine =
     \<lparr>handle = 40, imm_class = ProductionSite, owner = Some 1,
      descr = (descr_new ''coalmine'' ProductionSiteDescr 1)\<lparr>get_ismine := True\<rparr>,
      attributes = []\<rparr>"

definition mountain_game :: Game where
  "mountain_game =
     quiet_game\<lparr>get_resources := (\<lambda>c. 1), get_resources_amount := (\<lambda>c. 50),
                find_immovables := (\<lambda>c r. [\<lparr>object = a_mine, coords = (7, 9)\<rparr>])\<rparr>"

definition shaft :: MineableField where
  "shaft = \<lparr>mf_coords = (7, 7), mf_next_update_due = 0, mf_preferred = False, mines_nearby = 0\<rparr>"

definition coalmine :: BuildingObserver where
  "coalmine =
     (observer_new ''coalmine'' 1
        ((descr_new ''coalmine'' ProductionSiteDescr 1)\<lparr>get_ismine := True\<rparr>) MINE)
       \<lparr>bo_mines := 1, outputs := [0], cnt_built := 1, current_stats := 80\<rparr>"





text \<open>
  The quiet game one millisecond later, at a game time that is no multiple of 10, with two
  nodes of fish within radius 6 of every node; and a field at (5, 5) with three nodes of
  water nearby whose fish were counted as seven.
\<close>

definition pond_game :: Game where
  "pond_game = quiet_game\<lparr>get_gametime := 100001, find_fish := (\<lambda>c r. [(5, 6), (6, 6)])\<rparr>"

definition shore :: BuildableField where
  "shore = (field_new (5, 5) 100000)\<lparr>water_nearby := 3, fish_nearby := 7\<rparr>"





text \<open>
  The quiet game with a road of five steps along the row 0, on which only the node (2, 0)
  takes a flag; and the player \<open>woodland\<close> with that road, with exactly 20 free spots and
  with 21.
\<close>

definition road_game :: Game where
  "road_game =
     quiet_game\<lparr>nodecaps_flag := (\<lambda>c. c = (2, 0)),
                get_path := (\<lambda>r. [(0, 0), (1, 0), (2, 0), (3, 0), (4, 0), (5, 0)])\<rparr>"

definition crossroads_20 :: DefaultAI where
  "crossroads_20 = woodland\<lparr>roads := [7], spots := 20\<rparr>"

definition crossroads_21 :: DefaultAI where
  "crossroads_21 = woodland\<lparr>roads := [7], spots := 21\<rparr>"

section \<open>Verified properties\<close>

subsection \<open>Mineable fields and the mine planner\<close>

lemma count_mines_nearby_eq:
  "count_mines_nearby imms n = n + int (length (filter (\<lambda>f. counts_as_mine (object f)) imms))"
  by (induction imms arbitrary: n) auto

lemma update_mineable_field_coords: "mf_coords (update_mineable_field g field) = mf_coords field"
  by (simp add: update_mineable_field_def Let_def)

text \<open>
  Claim C10. After \<^verbatim>\<open>update_mineable_field\<close> the counter \<open>mines_nearby\<close> of the field is one
  more than the number of mines and mine construction sites found within radius 5, hence
  at least 1 also when none is found. For a mine type that is built or under
  construction the planner's penalty is 10, so the priority of the updated field is the
  resource amount less (number found + 1) times 10.
\<close>

theorem mines_nearby_starts_at_one:
  "mines_nearby (update_mineable_field g field) =
     1 + int (length (filter (\<lambda>f. counts_as_mine (object f))
                        (find_immovables g (mf_coords field) 5)))
   \<and> mines_nearby (update_mineable_field g field) \<ge> 1
   \<and> (cnt_built bo + cnt_under_construction bo \<noteq> 0 \<longrightarrow>
        get_resources g (mf_coords field) = bo_mines bo \<longrightarrow>
        mine_priority g blocked bo (nearness_penalty_of bo) (update_mineable_field g field) =
          (let prio = get_resources_amount g (mf_coords field)
                      - (int (length (filter (\<lambda>f. counts_as_mine (object f))
                                        (find_immovables g (mf_coords field) 5))) + 1) * 10
           in if prio < 2 then None
              else if mine_blocked blocked (mf_coords field) then None
              else Some (prio + (if mf_preferred (update_mineable_field g field) then 1 else 0))))"
proof -
  have n: "mines_nearby (update_mineable_field g field) =
     1 + int (length (filter (\<lambda>f. counts_as_mine (object f))
                        (find_immovables g (mf_coords field) 5)))"
    by (simp add: update_mineable_field_def Let_def count_mines_nearby_eq)
  show ?thesis
    by (simp add: n mine_priority_def nearness_penalty_of_def update_mineable_field_coords Let_def
        add.commute)
qed

theorem mines_nearby_starts_at_one_witness:
  "cnt_built coalmine + cnt_under_construction coalmine \<noteq> 0
   \<and> get_resources mountain_game (mf_coords shaft) = bo_mines coalmine
   \<and> mines_nearby (update_mineable_field mountain_game shaft) = 2
   \<and> mine_priority mountain_game [] coalmine (nearness_penalty_of coalmine)
       (update_mineable_field mountain_game shaft) = Some 30"
  using mines_nearby_starts_at_one [of mountain_game shaft coalmine "[]"]
  by (simp add: coalmine_def observer_new_def descr_new_def mountain_game_def quiet_game_def
      shaft_def a_mine_def counts_as_mine_def is_Building_def update_mineable_field_def
      is_flag_or_flaggable_road_def Let_def)

subsection \<open>What the phases of \<^verbatim>\<open>construct_building\<close> leave unchanged\<close>

lemma and_then_Inr: "and_then r f = Inr y \<Longrightarrow> \<exists>v. r = Inr v \<and> f v = Inr y"
  by (cases r) (auto simp: and_then_def)

lemma scan_buildings_frame:
  "scan_buildings g w t em m bf js (s, p) = Inr (s', p') \<Longrightarrow> \<exists>bs. s' = s\<lparr>buildings := bs\<rparr>"
proof (induction js arbitrary: s p)
  case Nil
  then have "s' = s\<lparr>buildings := buildings s\<rparr>" by simp
  then show ?case by blast
next
  case (Cons j js)
  from Cons.prems obtain bo r where
    rec: "scan_buildings g w t em m bf js
            (s\<lparr>buildings := (buildings s)[j := bo]\<rparr>,
             case r of None \<Rightarrow> p
             | Some prio \<Rightarrow> if prio > proposed_priority p
                 then p\<lparr>best_building := Some (j, bf_coords bf), proposed_priority := prio\<rparr>
                 else p) = Inr (s', p')"
    by (auto simp: Let_def dest!: and_then_Inr)
  from Cons.IH [OF rec] show ?case by auto
qed

lemma scan_fields_frame:
  "scan_fields g w t em k bfs (s, p) = Inr (s', p') \<Longrightarrow> \<exists>bs. s' = s\<lparr>buildings := bs\<rparr>"
proof (induction bfs arbitrary: s p k)
  case Nil
  then have "s' = s\<lparr>buildings := buildings s\<rparr>" by simp
  then show ?case by blast
next
  case (Cons bf bfs)
  show ?case
  proof (cases "bf_next_update_due bf < t - 8000
                \<or> field_blocked (blocked_fields s) (bf_coords bf) False")
    case True
    with Cons.prems have "scan_fields g w t em (Suc k) bfs (s, p) = Inr (s', p')"
      by (cases "bf_next_update_due bf < t - 8000") simp_all
    then show ?thesis by (rule Cons.IH)
  next
    case False
    with Cons.prems obtain s1 p1 where
      a: "scan_buildings g (w k) t em (int (get_buildcaps_size g (bf_coords bf))) bf
            [0..<length (buildings s)] (s, p) = Inr (s1, p1)"
      and b: "scan_fields g w t em (Suc k) bfs (s1, p1) = Inr (s', p')"
      by (auto dest!: and_then_Inr)
    from scan_buildings_frame [OF a] Cons.IH [OF b] show ?thesis by auto
  qed
qed

lemma mines_section_frame:
  "mines_section g t (s, p) = Inr (s', p') \<Longrightarrow>
   \<exists>mf uf nd. s' = s\<lparr>mineable_fields := mf, unusable_fields := uf,
                      next_mine_construction_due := nd\<rparr>"
proof (cases "t > next_mine_construction_due s")
  case False
  assume "mines_section g t (s, p) = Inr (s', p')"
  with False have "s' = s\<lparr>mineable_fields := mineable_fields s,
      unusable_fields := unusable_fields s,
      next_mine_construction_due := next_mine_construction_due s\<rparr>"
    by (simp add: mines_section_def)
  then show ?thesis by blast
next
  case True
  assume "mines_section g t (s, p) = Inr (s', p')"
  with True have "s' = (update_all_mineable_fields g s t)
      \<lparr>next_mine_construction_due := t + kIdleMineUpdateInterval\<rparr>"
    by (auto simp: mines_section_def Let_def split: if_splits dest!: and_then_Inr)
  then show ?thesis
    by (cases "update_all_mineable_fields_loop g t (mineable_fields s) (unusable_fields s) 0")
       (auto simp: update_all_mineable_fields_def)
qed

text \<open>A run that returns went through the four phases in turn.\<close>

lemma construct_building_phases:
  assumes "construct_building g w s t = Inr (r, s')"
  shows "\<exists>s1 p1 s2 p2.
           scan_fields g w t (fst (strategic_regime g s t)) 0
             (buildable_fields (snd (strategic_regime g s t)))
             ((snd (strategic_regime g s t))
                \<lparr>blocked_fields := remove_outdated (get_gametime g)
                                     (blocked_fields (snd (strategic_regime g s t)))\<rparr>,
              \<lparr>best_building = None, proposed_priority = 0, mine = False\<rparr>) = Inr (s1, p1)
           \<and> mines_section g t (s1, p1) = Inr (s2, p2)
           \<and> build_winner g t s2 p2 = (r, s')"
  using assms
  by (cases "strategic_regime g s t")
     (auto simp: construct_building_def Let_def dest!: and_then_Inr)


subsection \<open>The strategic regime\<close>

lemma set_spots_keeps:
  "blocked_fields (snd (set_spots g s)) = blocked_fields s"
  "buildable_fields (snd (set_spots g s)) = buildable_fields s"
  "productionsites (snd (set_spots g s)) = productionsites s"
  "militarysites (snd (set_spots g s)) = militarysites s"
  "buildings (snd (set_spots g s)) = buildings s"
  "mines (snd (set_spots g s)) = mines s"
  "num_prod_constructionsites (snd (set_spots g s)) = num_prod_constructionsites s"
  "num_milit_constructionsites (snd (set_spots g s)) = num_milit_constructionsites s"
  "enemy_last_seen (snd (set_spots g s)) = enemy_last_seen s"
  "sent (snd (set_spots g s)) = sent s"
  by (simp_all add: set_spots_def Let_def)


lemma set_new_buildings_stop_value:
  "new_buildings_stop (set_new_buildings_stop s t) =
     ((num_prod_constructionsites s > int (length (productionsites s) div 7 + 2)
       \<or> c_div (spots s * 3) 2 + 5 < int (length (productionsites s))
       \<or> num_prod_constructionsites s + int (length (productionsites s)) >
           (num_milit_constructionsites s + int (length (militarysites s))) * 3
       \<or> length (mines s) < 3)
      \<and> \<not> (enemy_last_seen s + 2 * 60 * 1000 > t))"
  by (simp add: set_new_buildings_stop_def stop_new_buildings_def Let_def)

lemma set_resource_necessity_keeps:
  "blocked_fields (set_resource_necessity sa s) = blocked_fields s"
  "buildable_fields (set_resource_necessity sa s) = buildable_fields s"
  "new_buildings_stop (set_resource_necessity sa s) = new_buildings_stop s"
  "sent (set_resource_necessity sa s) = sent s"
  by (simp_all add: set_resource_necessity_def Let_def)

lemma strategic_regime_snd:
  "snd (strategic_regime g s t) =
     set_resource_necessity (fst (set_spots g s))
       (set_new_buildings_stop (snd (set_spots g s)) t)"
  by (simp add: strategic_regime_def case_prod_beta Let_def)



lemma strategic_regime_new_buildings_stop:
  "new_buildings_stop (snd (strategic_regime g s t)) =
     ((num_prod_constructionsites s > int (length (productionsites s) div 7 + 2)
       \<or> c_div (spots (snd (set_spots g s)) * 3) 2 + 5 < int (length (productionsites s))
       \<or> num_prod_constructionsites s + int (length (productionsites s)) >
           (num_milit_constructionsites s + int (length (militarysites s))) * 3
       \<or> length (mines s) < 3)
      \<and> \<not> (enemy_last_seen s + 2 * 60 * 1000 > t))"
  by (simp only: strategic_regime_snd set_resource_necessity_keeps
      set_new_buildings_stop_value set_spots_keeps)

lemma count_spots_avail_length: "length (count_spots_avail g bfs acc) = length acc"
  by (induction bfs arbitrary: acc) auto

lemma count_spots_avail_nth:
  "k < length acc \<Longrightarrow>
   count_spots_avail g bfs acc ! k =
     acc ! k + int (length (filter (\<lambda>bf. nodecaps_size g (bf_coords bf) = k) bfs))"
proof (induction bfs arbitrary: acc)
  case Nil
  then show ?case by simp
next
  case (Cons bf bfs)
  then show ?case by (simp add: nth_list_update)
qed

lemma length_filter_three:
  "int (length (filter (\<lambda>x. f x = a) xs)) + int (length (filter (\<lambda>x. f x = b) xs))
     + int (length (filter (\<lambda>x. f x = c) xs))
   = int (length (filter (\<lambda>x. f x = a \<or> f x = b \<or> f x = c) xs))"
  if "a \<noteq> b" "a \<noteq> c" "b \<noteq> c"
  using that by (induction xs) auto

lemma set_spots_free_spots: "spots (snd (set_spots g s)) = free_spots g s"
proof -
  have "spots (snd (set_spots g s)) =
      count_spots_avail g (buildable_fields s) [0, 0, 0, 0] ! BUILDCAPS_SMALL
    + count_spots_avail g (buildable_fields s) [0, 0, 0, 0] ! BUILDCAPS_MEDIUM
    + count_spots_avail g (buildable_fields s) [0, 0, 0, 0] ! BUILDCAPS_BIG"
    by (simp add: set_spots_def Let_def)
  also have "\<dots> = free_spots g s"
    unfolding free_spots_def BUILDCAPS_SMALL_def BUILDCAPS_MEDIUM_def BUILDCAPS_BIG_def
    by (simp add: count_spots_avail_nth length_filter_three [symmetric] eval_nat_numeral)
  finally show ?thesis .
qed

lemma build_winner_new_buildings_stop:
  "new_buildings_stop (snd (build_winner g t s p)) = new_buildings_stop s"
  by (simp add: build_winner_def Let_def split: option.splits prod.splits)

subsection \<open>The example game and states, field by field\<close>

lemma quiet_game_sel:
  "get_gametime quiet_game = 100000"
  "player_number quiet_game = 1"
  "is_hostile quiet_game = (\<lambda>p. False)"
  "is_building_type_allowed quiet_game = (\<lambda>b. True)"
  "get_owned_by quiet_game = (\<lambda>c. 1)"
  "nodecaps_size quiet_game = (\<lambda>c. 1)"
  "nodecaps_flag quiet_game = (\<lambda>c. False)"
  "get_buildcaps_size quiet_game = (\<lambda>c. 1)"
  "get_buildcaps_mine quiet_game = (\<lambda>c. True)"
  "get_immovable quiet_game = (\<lambda>c. None)"
  "get_resources quiet_game = (\<lambda>c. 0)"
  "get_resources_amount quiet_game = (\<lambda>c. 0)"
  "get_brn quiet_game = (\<lambda>c. (fst c + 1, snd c + 1))"
  "calc_distance quiet_game = (\<lambda>a b. nat (max \<bar>fst a - fst b\<bar> \<bar>snd a - snd b\<bar>))"
  "find_immovables quiet_game = (\<lambda>c r. [])"
  "region quiet_game = (\<lambda>c r. [c])"
  "warehouses_empty quiet_game = (\<lambda>e. True)"
  "stock_ware quiet_game = (\<lambda>e w. 0)"
  "needs_ware quiet_game = (\<lambda>e w. False)"
  "get_neighbour_se quiet_game = (\<lambda>c. (fst c + 1, snd c + 1))"
  "find_unowned quiet_game = (\<lambda>c r. 0)"
  "find_unowned_mines_pots quiet_game = (\<lambda>c r. 0)"
  "find_water quiet_game = (\<lambda>c r. [])"
  "find_fish quiet_game = (\<lambda>c r. [])"
  "find_critters quiet_game = (\<lambda>c r. 0)"
  "get_path quiet_game = (\<lambda>r. [])"
  "flag_economy quiet_game = (\<lambda>f. 0)"
  "flag_building quiet_game = (\<lambda>f. None)"
  "get_nrplayers quiet_game = 1"
  "player_exists quiet_game = (\<lambda>p. p = 1)"
  "get_general_statistics quiet_game = []"
  by (simp_all add: quiet_game_def)

lemma woodland_sel:
  "ai_type woodland = 1"
  "tribe_is_null woodland = False"
  "buildable_fields woodland = [copse]"
  "mineable_fields woodland = []"
  "unusable_fields woodland = []"
  "buildings woodland = [lumberjack]"
  "wares woodland = [\<lparr>producers = 1, consumers = 0, preciousness = 2\<rparr>]"
  "productionsites woodland = replicate 30 a_site"
  "mines woodland = replicate 3 a_site"
  "militarysites woodland = replicate 20 a_post"
  "roads woodland = []"
  "new_flags woodland = []"
  "economies woodland = []"
  "blocked_fields woodland = []"
  "num_constructionsites woodland = 0"
  "num_milit_constructionsites woodland = 0"
  "num_prod_constructionsites woodland = 7"
  "numof_warehouses woodland = 0"
  "next_road_due woodland = 2000"
  "next_stats_update_due woodland = 30000"
  "next_construction_due woodland = 1000"
  "next_mine_construction_due woodland = 200000"
  "next_attack_consideration_due woodland = 300000"
  "next_bf_check_due woodland = 1000"
  "time_of_last_construction woodland = 0"
  "inhibit_road_building woodland = 0"
  "enemy_last_seen woodland = - 120000"
  "new_buildings_stop woodland = False"
  "resource_necessity_territory woodland = 255"
  "resource_necessity_mines woodland = 255"
  "resource_necessity_water woodland = 0"
  "resource_necessity_water_needed woodland = False"
  "unstationed_milit_buildings woodland = 0"
  "military_last_build woodland = - 60000"
  "spots woodland = 0"
  "m_buildable_changed woodland = True"
  "m_mineable_changed woodland = True"
  "sent woodland = []"
  by (simp_all add: woodland_def DefaultAI_new_def)

lemma lumberjack_sel:
  "name lumberjack = ''lumberjacks_hut''"
  "bo_id lumberjack = 0"
  "desc lumberjack = descr_new ''lumberjacks_hut'' ProductionSiteDescr 1"
  "bo_type lumberjack = PRODUCTIONSITE"
  "is_buildable lumberjack = True"
  "need_trees lumberjack = True"
  "need_stones lumberjack = False"
  "need_water lumberjack = False"
  "mines_water lumberjack = False"
  "recruitment lumberjack = False"
  "space_consumer lumberjack = False"
  "expansion_type lumberjack = False"
  "fighting_type lumberjack = False"
  "mountain_conqueror lumberjack = False"
  "plants_trees lumberjack = False"
  "is_hunter lumberjack = False"
  "is_fisher lumberjack = False"
  "prohibited_till lumberjack = 0"
  "forced_after lumberjack = 0"
  "production_hint lumberjack = - 1"
  "bo_mines lumberjack = 0"
  "cnt_built lumberjack = 1"
  "cnt_under_construction lumberjack = 0"
  "cnt_target lumberjack = 1"
  "unoccupied lumberjack = False"
  "current_stats lumberjack = 0"
  "stocklevel lumberjack = 0"
  "stocklevel_time lumberjack = 0"
  "construction_decision_time lumberjack = - 3600000"
  "inputs lumberjack = []"
  "outputs lumberjack = [0]"
  by (simp_all add: lumberjack_def observer_new_def)

lemma copse_sel:
  "bf_coords copse = (5, 5)"
  "bf_next_update_due copse = 100000"
  "bf_preferred copse = False"
  "enemy_nearby copse = False"
  "unowned_land_nearby copse = 0"
  "near_border copse = False"
  "unowned_mines_pots_nearby copse = 0"
  "trees_nearby copse = 4"
  "stones_nearby copse = 1"
  "water_nearby copse = - 1"
  "distant_water copse = 0"
  "fish_nearby copse = - 1"
  "critters_nearby copse = 0"
  "ground_water copse = 1"
  "space_consumers_nearby copse = 0"
  "producers_nearby copse = [0]"
  "consumers_nearby copse = [0]"
  "military_capacity copse = 0"
  "military_loneliness copse = 1000"
  "military_in_constr_nearby copse = 0"
  "military_presence copse = 0"
  "military_stationed copse = 0"
  by (simp_all add: copse_def field_new_def)


lemmas example_sel = woodland_sel quiet_game_sel lumberjack_sel copse_sel

text \<open>
  Runs of \<^verbatim>\<open>construct_building\<close> at game time 100 s, evaluated phase by phase: the
  regime, the lumberjack on the copse, and the whole function with the wall clock at a
  second divisible by 3, at another second, and at that second with the copse blocked.
\<close>

lemma regime_woodland:
  "strategic_regime quiet_game woodland 100000 =
     (kPushExpansion,
      woodland\<lparr>new_buildings_stop := True, resource_necessity_territory := 255,
               resource_necessity_mines := 255, spots := 1\<rparr>)"
  by (simp add: strategic_regime_def set_spots_def set_new_buildings_stop_def
      stop_new_buildings_def get_expansion_mode_def set_resource_necessity_def
      necessity_mines_def necessity_territory_def c_div_def Let_def
      BUILDCAPS_SMALL_def BUILDCAPS_MEDIUM_def BUILDCAPS_BIG_def
      woodland_sel quiet_game_sel copse_sel)


lemma lumberjack_on_copse_wallclock_4:
  assumes "economies s = []" "length (mines s) = 3" "length (productionsites s) = 30"
  shows "evaluate_candidate quiet_game 4 s 100000 em 1 copse lumberjack =
           Inr (lumberjack\<lparr>cnt_target := 5\<rparr>, Some 404)"
  using assms
  by (simp add: evaluate_candidate_def gated_def prio_by_type_def final_adjust_def
      buildable_def total_count_def c_mod_def c_div_def
      kBuildingMinInterval_def check_ware_necessity_def prio_productionsite_def
      prio_lumberjack_def score_def skip_def and_then_def
      quiet_game_sel lumberjack_sel copse_sel descr_new_def)

lemmas run_unfold =
  construct_building_def regime_woodland field_blocked.simps mines_section_def
  build_winner_def nearby_blocks_def Let_def and_then_def example_sel


lemma run_wallclock_4:
  "construct_building quiet_game (\<lambda>k j. 4) woodland 100000 =
     Inr (True,
          woodland\<lparr>buildings :=
                     [lumberjack\<lparr>cnt_target := 5, construction_decision_time := 100000\<rparr>],
                   blocked_fields := [\<lparr>bl_coords = (5, 5), blocked_until = 220000\<rparr>],
                   new_buildings_stop := True, resource_necessity_territory := 255,
                   resource_necessity_mines := 255, spots := 1, m_buildable_changed := True,
                   sent := [send_player_build 1 (5, 5) 0]\<rparr>)"
  by (simp add: run_unfold lumberjack_on_copse_wallclock_4)




subsection \<open>When new buildings stop\<close>

text \<open>
  Claim C2. A run of \<^verbatim>\<open>construct_building\<close> that returns leaves \<open>new_buildings_stop\<close>
  true exactly when one of the four reasons holds (production construction sites above a
  seventh of the production sites plus 2; free spots times 3, halved, plus 5 below the
  production sites; production sites with their construction sites above three times the
  military sites with theirs; fewer than 3 mines) and no enemy was seen within the last
  two minutes. With 30 production sites the first reason holds from 7 production
  construction sites on, not with 6.
\<close>

theorem new_buildings_stop_rule:
  assumes "construct_building g wallclock s gametime = Inr (r, s')"
  shows "(new_buildings_stop s' \<longleftrightarrow>
           (num_prod_constructionsites s > int (length (productionsites s) div 7 + 2)
            \<or> c_div (free_spots g s * 3) 2 + 5 < int (length (productionsites s))
            \<or> num_prod_constructionsites s + int (length (productionsites s)) >
                (num_milit_constructionsites s + int (length (militarysites s))) * 3
            \<or> length (mines s) < 3)
           \<and> \<not> (enemy_last_seen s + 2 * 60 * 1000 > gametime))
         \<and> (length (productionsites s) = 30 \<longrightarrow>
              (num_prod_constructionsites s > int (length (productionsites s) div 7 + 2)
               \<longleftrightarrow> 7 \<le> num_prod_constructionsites s))"
proof -
  from construct_building_phases [OF assms] obtain s1 p1 s2 p2 where
    scan: "scan_fields g wallclock gametime (fst (strategic_regime g s gametime)) 0
             (buildable_fields (snd (strategic_regime g s gametime)))
             ((snd (strategic_regime g s gametime))
                \<lparr>blocked_fields := remove_outdated (get_gametime g)
                                     (blocked_fields (snd (strategic_regime g s gametime)))\<rparr>,
              \<lparr>best_building = None, proposed_priority = 0, mine = False\<rparr>) = Inr (s1, p1)"
    and mines: "mines_section g gametime (s1, p1) = Inr (s2, p2)"
    and build: "build_winner g gametime s2 p2 = (r, s')"
    by blast
  from scan_fields_frame [OF scan]
  have "new_buildings_stop s1 = new_buildings_stop (snd (strategic_regime g s gametime))"
    by auto
  moreover from mines_section_frame [OF mines]
  have "new_buildings_stop s2 = new_buildings_stop s1" by auto
  moreover from build have "new_buildings_stop s' = new_buildings_stop s2"
    using build_winner_new_buildings_stop [of g gametime s2 p2] by simp
  ultimately have "new_buildings_stop s' =
      new_buildings_stop (snd (strategic_regime g s gametime))" by simp
  then have "new_buildings_stop s' \<longleftrightarrow>
           (num_prod_constructionsites s > int (length (productionsites s) div 7 + 2)
            \<or> c_div (free_spots g s * 3) 2 + 5 < int (length (productionsites s))
            \<or> num_prod_constructionsites s + int (length (productionsites s)) >
                (num_milit_constructionsites s + int (length (militarysites s))) * 3
            \<or> length (mines s) < 3)
           \<and> \<not> (enemy_last_seen s + 2 * 60 * 1000 > gametime)"
    by (simp only: strategic_regime_new_buildings_stop set_spots_free_spots)
  moreover have "length (productionsites s) = 30 \<longrightarrow>
              (num_prod_constructionsites s > int (length (productionsites s) div 7 + 2)
               \<longleftrightarrow> 7 \<le> num_prod_constructionsites s)"
    by auto
  ultimately show ?thesis by blast
qed

theorem new_buildings_stop_rule_witness:
  "construct_building quiet_game (\<lambda>k j. 4) woodland 100000 =
     Inr (True,
          woodland\<lparr>buildings :=
                     [lumberjack\<lparr>cnt_target := 5, construction_decision_time := 100000\<rparr>],
                   blocked_fields := [\<lparr>bl_coords = (5, 5), blocked_until = 220000\<rparr>],
                   new_buildings_stop := True, resource_necessity_territory := 255,
                   resource_necessity_mines := 255, spots := 1, m_buildable_changed := True,
                   sent := [send_player_build 1 (5, 5) 0]\<rparr>)
   \<and> length (productionsites woodland) = 30
   \<and> 7 \<le> num_prod_constructionsites woodland
   \<and> num_prod_constructionsites woodland > int (length (productionsites woodland) div 7 + 2)"
  using new_buildings_stop_rule [OF run_wallclock_4]
  by (simp add: run_wallclock_4 woodland_sel)


subsection \<open>The scan keeps the building types\<close>

lemma same_building_refl [simp]: "same_building bo bo"
  by (simp add: same_building_def)

lemma same_building_upd [simp]:
  "same_building bo (bo'\<lparr>cnt_target := x\<rparr>) = same_building bo bo'"
  "same_building bo (bo'\<lparr>stocklevel := y\<rparr>) = same_building bo bo'"
  "same_building bo (bo'\<lparr>stocklevel_time := z\<rparr>) = same_building bo bo'"
  by (simp_all add: same_building_def)

lemma same_building_upd_left [simp]:
  "same_building (bo\<lparr>cnt_target := x\<rparr>) bo' = same_building bo bo'"
  "same_building (bo\<lparr>stocklevel := y\<rparr>) bo' = same_building bo bo'"
  "same_building (bo\<lparr>stocklevel_time := z\<rparr>) bo' = same_building bo bo'"
  by (simp_all add: same_building_def)

lemma same_refresh [simp]: "same_building bo (refresh_stocklevel_by_hint g s bo') = same_building bo bo'"
  by (simp add: refresh_stocklevel_by_hint_def)



















subsection \<open>What the scans keep: building types and a valid winner\<close>














subsection \<open>The wall clock in the candidate scan\<close>








section \<open>C1: what the wall clock decides\<close>







section \<open>C9: the blocked fields\<close>












lemma nearby_blocks_cases:
  "nearby_blocks g c best =
     (if space_consumer best \<and> (\<not> plants_trees best \<or> bo_type best = MILITARYSITE)
      then block_region g c 3 2700000
      else if bo_type best = MILITARYSITE then block_region g c 6 25000
      else [])"
  by (simp add: nearby_blocks_def)






section \<open>C5: the fish near a field\<close>

lemma increment_consumers_fish:
  "increment_consumers ins f = Inr f' \<Longrightarrow> fish_nearby f' = fish_nearby f"
  by (induction ins arbitrary: f) (auto dest!: and_then_Inr)

lemma increment_producers_fish:
  "increment_producers outs f = Inr f' \<Longrightarrow> fish_nearby f' = fish_nearby f"
  by (induction outs arbitrary: f) (auto dest!: and_then_Inr)

lemma consider_productionsite_influence_fish:
  "consider_productionsite_influence g f c bo = Inr f' \<Longrightarrow> fish_nearby f' = fish_nearby f"
  by (auto simp: consider_productionsite_influence_def Let_def split: if_splits
      dest!: and_then_Inr increment_consumers_fish increment_producers_fish)

lemma influence_of_constructionsite_fish:
  "influence_of_constructionsite g s imm f = Inr f' \<Longrightarrow> fish_nearby f' = fish_nearby f"
  by (auto simp: influence_of_constructionsite_def split: ImmovableClass.splits if_splits
      dest!: and_then_Inr consider_productionsite_influence_fish)

lemma influence_of_productionsite_fish:
  "influence_of_productionsite g s imm f = Inr f' \<Longrightarrow> fish_nearby f' = fish_nearby f"
  by (auto simp: influence_of_productionsite_def split: if_splits
      dest!: and_then_Inr consider_productionsite_influence_fish)

lemma mark_enemy_fish: "fish_nearby (mark_enemy g b f) = fish_nearby f"
  by (simp add: mark_enemy_def split: option.splits)

lemma scan_immovables_fish:
  "scan_immovables g imms (s, f) = Inr (s', f') \<Longrightarrow> fish_nearby f' = fish_nearby f"
proof (induction imms arbitrary: s f)
  case Nil
  then show ?case by simp
next
  case (Cons imm rest)
  show ?case
  proof (cases "foreign g (object imm)")
    case True
    with Cons.prems have "scan_immovables g rest
        (s\<lparr>enemy_last_seen := get_gametime g\<rparr>, mark_enemy g (object imm) f) = Inr (s', f')"
      by simp
    from Cons.IH [OF this] show ?thesis by (simp add: mark_enemy_fish)
  next
    case False
    with Cons.prems obtain f1 where
      a: "(if is_Building (object imm)
           then and_then (influence_of_constructionsite g s imm f)
                  (influence_of_productionsite g s imm)
           else Inr f) = Inr f1"
      and b: "scan_immovables g rest
               (s, if has_attribute (object imm) ''tree''
                   then f1\<lparr>trees_nearby := trees_nearby f1 + 1\<rparr> else f1) = Inr (s', f')"
      by (auto dest!: and_then_Inr)
    from a have "fish_nearby f1 = fish_nearby f"
      by (auto split: if_splits
          dest!: and_then_Inr influence_of_constructionsite_fish influence_of_productionsite_fish)
    with Cons.IH [OF b] show ?thesis by (simp split: if_splits)
  qed
qed

lemma military_of_constructionsite_fish:
  "fish_nearby (military_of_constructionsite tr g imm f) = fish_nearby f"
  by (simp add: military_of_constructionsite_def Let_def split: ImmovableClass.splits)

lemma military_of_militarysite_fish:
  "fish_nearby (military_of_militarysite tr g imm f) = fish_nearby f"
  by (simp add: military_of_militarysite_def Let_def split: ImmovableClass.splits)

lemma scan_military_fish: "fish_nearby (scan_military tr g imms f) = fish_nearby f"
  by (induction imms arbitrary: f)
     (simp_all add: mark_enemy_fish military_of_constructionsite_fish
        military_of_militarysite_fish)

lemma military_update_fish: "fish_nearby (military_update tr g f rng) = fish_nearby f"
  by (simp add: military_update_def Let_def scan_military_fish)

lemma count_fish_value:
  "fish_nearby (count_fish g f) =
     (if water_nearby f > 0 then int (length (find_fish g (bf_coords f) 6)) else fish_nearby f)"
  by (simp add: count_fish_def Let_def)

lemma count_water_keeps:
  "water_nearby f \<noteq> - 1 \<Longrightarrow> count_water g s f = f"
  by (simp add: count_water_def)

lemma count_critters_fish: "fish_nearby (count_critters g f) = fish_nearby f"
  "bf_coords (count_critters g f) = bf_coords f"
  by (simp_all add: count_critters_def)

lemma count_fish_coords: "bf_coords (count_fish g f) = bf_coords f"
  by (simp add: count_fish_def Let_def)

lemma general_update_fish:
  assumes "general_update g s f imms = Inr (s', f')" "water_nearby f > 0"
  shows "fish_nearby f' = int (length (find_fish g (bf_coords f) 6))"
proof -
  define f0 where "f0 = f\<lparr>bf_preferred := False, enemy_nearby := False, military_capacity := 0,
                        military_loneliness := 1000, military_presence := 0,
                        military_stationed := 0, trees_nearby := 0,
                        space_consumers_nearby := 0,
                        producers_nearby := replicate (length (wares s)) 0,
                        consumers_nearby := replicate (length (wares s)) 0\<rparr>"
  have w0: "water_nearby f0 > 0" "bf_coords f0 = bf_coords f" using assms(2) by (simp_all add: f0_def)
  then have cw: "count_water g s f0 = f0" by (simp add: count_water_keeps)
  define f1 where "f1 = count_critters g (count_fish g f0)"
  have fish1: "fish_nearby f1 = int (length (find_fish g (bf_coords f) 6))"
    using w0 by (simp add: f1_def count_critters_fish count_fish_value)
  define f2 where "f2 = (if is_flag_or_flaggable_road g (get_neighbour_se g (bf_coords f1))
                   then f1\<lparr>bf_preferred := True\<rparr> else f1)"
  have fish2: "fish_nearby f2 = fish_nearby f1" by (simp add: f2_def)
  from assms(1) obtain s3 f3 where
    scan: "scan_immovables g imms (s, f2) = Inr (s3, f3)"
    and fin: "f' = (let field = (if stones_nearby f3 > 0
                        then f3\<lparr>stones_nearby := count_stones imms\<rparr> else f3);
               field = (if ground_water field > 0
                        then field\<lparr>ground_water := get_resources_amount g (bf_coords field)\<rparr>
                        else field)
           in field)"
    unfolding general_update_def f0_def [symmetric] Let_def cw f1_def [symmetric]
      f2_def [symmetric]
    by (auto dest!: and_then_Inr)
  from fin have "fish_nearby f' = fish_nearby f3" by (simp add: Let_def)
  with scan_immovables_fish [OF scan] fish2 fish1 show ?thesis by simp
qed

lemma count_unowned_land_keeps:
  "water_nearby (count_unowned_land g s f rng) = water_nearby f"
  "bf_coords (count_unowned_land g s f rng) = bf_coords f"
  "fish_nearby (count_unowned_land g s f rng) = fish_nearby f"
  by (simp_all add: count_unowned_land_def Let_def)

lemma pond_game_sel:
  "get_gametime pond_game = 100001"
  "player_number pond_game = 1"
  "get_immovable pond_game = (\<lambda>c. None)"
  "get_resources_amount pond_game = (\<lambda>c. 0)"
  "find_immovables pond_game = (\<lambda>c r. [])"
  "get_neighbour_se pond_game = (\<lambda>c. (fst c + 1, snd c + 1))"
  "find_unowned pond_game = (\<lambda>c r. 0)"
  "find_unowned_mines_pots pond_game = (\<lambda>c r. 0)"
  "find_water pond_game = (\<lambda>c r. [])"
  "find_fish pond_game = (\<lambda>c r. [(5, 6), (6, 6)])"
  "find_critters pond_game = (\<lambda>c r. 0)"
  by (simp_all add: pond_game_def quiet_game_sel)

lemma shore_run:
  "update_buildable_field tr pond_game woodland shore 6 False =
     Inr (woodland,
          shore\<lparr>bf_preferred := False, enemy_nearby := False, unowned_land_nearby := 0,
                near_border := False, unowned_mines_pots_nearby := 0, trees_nearby := 0,
                stones_nearby := 0, fish_nearby := 2, ground_water := 0,
                space_consumers_nearby := 0, producers_nearby := [0], consumers_nearby := [0],
                military_capacity := 0, military_loneliness := 1000,
                military_in_constr_nearby := 0, military_presence := 0,
                military_stationed := 0\<rparr>)"
  by (simp add: update_buildable_field_def general_update_def military_update_def
      count_unowned_land_def count_unowned_mines_pots_def count_water_def count_fish_def count_critters_def
      count_stones_def is_flag_or_flaggable_road_def and_then_def Let_def c_mod_def c_div_def
      pond_game_sel woodland_sel shore_def field_new_def)

text \<open>
  Claim C5 describes the intent: recount the fish when they were never counted or at
  every tenth game time. The test in the source assigns instead of comparing, so what the
  function does is this: a general update of a field with water nearby recounts the
  fish, whatever the stored count and the game time are.
\<close>

theorem fish_recounted_on_every_general_update:
  assumes "update_buildable_field tr g s field rng False = Inr (s', field')"
    and "water_nearby field > 0"
  shows "fish_nearby field' = int (length (find_fish g (bf_coords field) 6))"
proof -
  define f2 where "f2 = count_unowned_land g s field rng"
  have w: "water_nearby f2 > 0" "bf_coords f2 = bf_coords field"
    using assms(2) by (simp_all add: f2_def count_unowned_land_keeps)
  from assms(1) obtain s3 f3 where
    gen: "general_update g s f2 (find_immovables g (bf_coords f2) rng) = Inr (s3, f3)"
    and fin: "field' = military_update tr g f3 rng"
    unfolding update_buildable_field_def Let_def f2_def [symmetric]
    by (auto dest!: and_then_Inr)
  from general_update_fish [OF gen w(1)] w(2) fin show ?thesis
    by (simp add: military_update_fish)
qed

text \<open>
  The theorem on the field \<open>shore\<close>, whose fish were counted as seven, at game time
  100001: the update returns and leaves the count at the two nodes the search finds.
\<close>

theorem fish_recounted_on_every_general_update_witness:
  "(\<exists>s' field'. update_buildable_field (\<lambda>x d r. x) pond_game woodland shore 6 False
        = Inr (s', field') \<and> fish_nearby field' = 2)
   \<and> water_nearby shore = 3 \<and> fish_nearby shore = 7
   \<and> c_mod (get_gametime pond_game) 10 = 1"
proof -
  obtain s' field' where
    run: "update_buildable_field (\<lambda>x d r. x) pond_game woodland shore 6 False = Inr (s', field')"
    using shore_run by blast
  have water: "water_nearby shore > 0" by (simp add: shore_def)
  from fish_recounted_on_every_general_update [OF run water]
  have "fish_nearby field' = 2" by (simp add: pond_game_sel)
  with run show ?thesis
    by (auto simp: shore_def c_mod_def c_div_def pond_game_sel)
qed

section \<open>C4: the military loneliness of a field\<close>

lemma mark_enemy_loneliness:
  "military_loneliness (mark_enemy g b f) = military_loneliness f"
  "bf_coords (mark_enemy g b f) = bf_coords f"
  by (simp_all add: mark_enemy_def split: option.splits)

lemma military_of_constructionsite_loneliness:
  "bf_coords (military_of_constructionsite tr g imm f) = bf_coords f"
  "military_loneliness (military_of_constructionsite tr g imm f) =
     (case imm_class (object imm) of
        ConstructionSite target_descr \<Rightarrow>
          if descr_class target_descr = MilitarySiteDescr
             \<and> int (calc_distance g (bf_coords f) (coords imm)) < get_conquers target_descr + 4
          then tr (military_loneliness f) (int (calc_distance g (bf_coords f) (coords imm)))
                 (get_conquers target_descr + 4)
          else military_loneliness f
      | _ \<Rightarrow> military_loneliness f)"
  by (simp_all add: military_of_constructionsite_def Let_def split: ImmovableClass.splits)

lemma military_of_militarysite_loneliness:
  "bf_coords (military_of_militarysite tr g imm f) = bf_coords f"
  "military_loneliness (military_of_militarysite tr g imm f) =
     (case imm_class (object imm) of
        MilitarySite capacity stationed \<Rightarrow>
          if 0 < calc_distance g (bf_coords f) (coords imm)
             \<and> int (calc_distance g (bf_coords f) (coords imm))
                 < get_conquers (descr (object imm)) + 4
          then tr (military_loneliness f) (int (calc_distance g (bf_coords f) (coords imm)))
                 (get_conquers (descr (object imm)) + 4)
          else military_loneliness f
      | _ \<Rightarrow> military_loneliness f)"
  by (simp_all add: military_of_militarysite_def Let_def split: ImmovableClass.splits)

lemma scan_military_step:
  "scan_military tr g (imm # rest) f = scan_military tr g rest (lonely_step tr g imm f)"
  by (simp add: lonely_step_def)

lemma lonely_step_coords: "bf_coords (lonely_step tr g imm f) = bf_coords f"
  by (simp add: lonely_step_def mark_enemy_loneliness military_of_constructionsite_loneliness
      military_of_militarysite_loneliness)



lemma scan_military_coords: "bf_coords (scan_military tr g imms f) = bf_coords f"
proof (induction imms arbitrary: f)
  case Nil
  show ?case by simp
next
  case (Cons imm rest)
  show ?case unfolding scan_military_step by (simp add: Cons.IH lonely_step_coords)
qed


















end
